theory Spec2Isabelle
  imports Main
begin

section \<open>Shared data model\<close>

text \<open>
  A UUID value (\<open>uuid.UUID\<close>, sixteen bytes) is represented by its canonical text, the
  string that \<open>uuid.String()\<close> prints, so \<open>String()\<close> is the identity of the model;
  \<open>uuid.Parse\<close> belongs to the UUID library and is taken as a parameter where the code
  calls it.  Go's \<open>error\<close> values are the constructors of one datatype: the sentinel
  errors the source declares, the run-time panic of an index out of range, and \<open>Err\<close>
  for every error that carries only a message.
\<close>

type_synonym uuid = string

datatype error =
    ErrContainerNotFound
  | ErrNoDockerMethods
  | ErrAlreadyExists uuid
  | ErrFailedToReadEnv
  | ErrFailedToDelete uuid error
  | ErrExecutableNotFound string
  | PanicIndexOutOfRange
  | Err string

section \<open>Service update (apps/containers, service layer)\<close>

text \<open>
  \<open>types.Service\<close> and \<open>types.Container\<close> are declared outside the files at hand; the
  model keeps the fields the service layer reads and writes.  \<open>MaxSupportedVersion\<close>
  is a constant of the same missing package and is a parameter of \<open>Update\<close>.  The
  adapter behind \<open>port.ContainerServiceAdapter\<close> is an interface: its \<open>Save\<close> is a
  parameter that maps the storage state to an optional error and the new storage state.
\<close>

record Service =
  svc_ID :: string
  svc_Name :: string
  svc_Version :: int

record Container =
  ct_UUID :: uuid
  ct_Service :: Service
  ct_UpdateAvailable :: bool

type_synonym 'fs service_save = "uuid \<Rightarrow> Service \<Rightarrow> 'fs \<Rightarrow> error option \<times> 'fs"

definition Save :: "'fs service_save \<Rightarrow> Container \<Rightarrow> Service \<Rightarrow> 'fs
    \<Rightarrow> error option \<times> Container \<times> 'fs" where
  "Save adapter_Save inst service fs =
     (let inst' = inst\<lparr>ct_Service := service\<rparr>;
          (err, fs') = adapter_Save (ct_UUID inst') service fs
      in (err, inst', fs'))"

definition Update :: "int \<Rightarrow> 'fs service_save \<Rightarrow> Container \<Rightarrow> Service \<Rightarrow> 'fs
    \<Rightarrow> error option \<times> Container \<times> 'fs" where
  "Update MaxSupportedVersion adapter_Save inst service fs =
     (if svc_Version service \<le> MaxSupportedVersion then
        (case Save adapter_Save inst service fs of
           (Some err, inst', fs') \<Rightarrow> (Some err, inst', fs')
         | (None, inst', fs') \<Rightarrow> (None, inst', fs'))
      else (None, inst, fs))"

definition CheckForUpdate :: "Container \<Rightarrow> Service \<Rightarrow> error option \<times> Container" where
  "CheckForUpdate inst latest =
     (let upToDate = (latest = ct_Service inst)
      in (None, inst\<lparr>ct_UpdateAvailable := \<not> upToDate\<rparr>))"

section \<open>Instance settings (apps/instances, service layer)\<close>

text \<open>
  \<open>InstanceSettingsAdapterPort.Load\<close> is an interface method; its outcome for the
  instance's UUID is a parameter.  Of \<open>types.InstanceSettings\<close> the model keeps the
  fields that the setters of this file touch.
\<close>

record InstanceSettings =
  DisplayName :: string
  LaunchOnStartup :: "bool option"
  Version :: "string option"
  Tags :: "string list"

record SettingsInstance =
  si_UUID :: uuid
  si_Service :: Service
  si_InstanceSettings :: InstanceSettings

definition settings_Load :: "(uuid \<Rightarrow> error + InstanceSettings) \<Rightarrow> SettingsInstance
    \<Rightarrow> error option \<times> SettingsInstance" where
  "settings_Load adapter_Load inst =
     (case adapter_Load (si_UUID inst) of
        Inl err \<Rightarrow> (Some err, inst)
      | Inr settings \<Rightarrow>
          (let settings' = (if DisplayName settings = ''''
                            then settings\<lparr>DisplayName := svc_Name (si_Service inst)\<rparr>
                            else settings)
           in (None, inst\<lparr>si_InstanceSettings := settings'\<rparr>)))"

section \<open>Docker runner (repository/runner\_docker.go)\<close>

text \<open>
  The Docker daemon, the file system and the library functions the runner calls are an
  environment record: each field is the outcome of one call.  \<open>Start\<close> reads the
  container list once and never again, so a read-only environment is enough.  The port
  sets and port maps that \<open>nat.ParsePortSpecs\<close> builds are represented by the list of
  specifications they are parsed from; the parser itself only says whether it accepts
  that list.  The three callbacks of \<open>Start\<close> become a trace, in call order.
\<close>

record EnvDefinition =
  env_Type :: string
  env_Name :: string
  env_Default :: string

record DockerMethod =
  Dockerfile :: "string option"
  Image :: "string option"
  Ports :: "string list option"
  Volumes :: "(string \<times> string) list option"

record Instance =
  UUID :: uuid
  Docker :: DockerMethod
  EnvDefinitions :: "EnvDefinition list"
  EnvVariables :: "string \<rightharpoonup> string"

record DockerContainer =
  Names :: "string list"
  ID :: string

record DockerClient =
  ContainerList :: "error + DockerContainer list"
  ContainerRemove :: "string \<Rightarrow> error option"
  ContainerStart :: "string \<Rightarrow> error option"
  ContainerCreate :: "string \<Rightarrow> string \<Rightarrow> string list \<Rightarrow> string list \<Rightarrow> string \<times> error option"
  ImagePull :: "string \<Rightarrow> error + string list \<times> error option"
  TarWithOptions :: "string \<Rightarrow> error option"
  ImageBuild :: "string \<Rightarrow> string \<Rightarrow> error + string option list \<times> error option"
  ParsePortSpecs :: "string list \<Rightarrow> error option"
  VolumeAbs :: "string \<Rightarrow> string \<Rightarrow> error + string"
  InstancePath :: "uuid \<Rightarrow> string"

datatype callback = SetStatus string | OnLog string | OnErr error

text \<open>
  Modelled from the spec: the status constants of the missing \<open>types\<close> package
  (\<open>InstanceStatusBuilding\<close>, \<open>InstanceStatusRunning\<close>, \<open>InstanceStatusError\<close>),
  with the values the spec lists for \<open>status\<close>.
\<close>

definition InstanceStatusBuilding :: string where
  "InstanceStatusBuilding = ''building''"

definition InstanceStatusRunning :: string where
  "InstanceStatusRunning = ''running''"

definition InstanceStatusError :: string where
  "InstanceStatusError = ''error''"

text \<open>
  Modelled from the spec: \<open>DockerImageName\<close> and \<open>DockerContainerName\<close> are methods of
  the missing \<open>types.Instance\<close>; the spec names the image \<open>vertex_image_<uuid>\<close> and the
  container \<open>VERTEX_CONTAINER_<uuid>\<close>, as services/instance/instance.go does.
\<close>

definition DockerImageName :: "Instance \<Rightarrow> string" where
  "DockerImageName i = ''vertex_image_'' @ UUID i"

definition DockerContainerName :: "Instance \<Rightarrow> string" where
  "DockerContainerName i = ''VERTEX_CONTAINER_'' @ UUID i"

text \<open>
  The loop of \<open>getID\<close>: \<open>c.Names[0]\<close> panics on a container without a name; the first
  container whose first name is the wanted one ends the loop with its id, and an
  exhausted list leaves the id empty.
\<close>

fun findContainerID :: "string \<Rightarrow> DockerContainer list \<Rightarrow> error + string" where
  "findContainerID wanted [] = Inr ''''"
| "findContainerID wanted (c # cs) =
     (case Names c of
        [] \<Rightarrow> Inl PanicIndexOutOfRange
      | name # _ \<Rightarrow> if name = wanted then Inr (ID c) else findContainerID wanted cs)"

definition getID :: "DockerClient \<Rightarrow> Instance \<Rightarrow> error + string" where
  "getID cli instance =
     (case ContainerList cli of
        Inl err \<Rightarrow> Inl err
      | Inr containers \<Rightarrow>
          (case findContainerID (''/'' @ DockerContainerName instance) containers of
             Inl err \<Rightarrow> Inl err
           | Inr containerID \<Rightarrow>
               if containerID = '''' then Inl ErrContainerNotFound else Inr containerID))"

definition Delete :: "DockerClient \<Rightarrow> Instance \<Rightarrow> error option" where
  "Delete cli instance =
     (case getID cli instance of
        Inl err \<Rightarrow> Some err
      | Inr containerID \<Rightarrow> ContainerRemove cli containerID)"

text \<open>
  A container list in which every container has a first name and none has the wanted
  one: the named container is absent.
\<close>

definition containerAbsent :: "string \<Rightarrow> DockerContainer list \<Rightarrow> bool" where
  "containerAbsent wanted containers =
     list_all (\<lambda>c. case Names c of [] \<Rightarrow> False | name # _ \<Rightarrow> name \<noteq> wanted) containers"

text \<open>
  A response of the daemon is read through a \<open>bufio.Scanner\<close>: it is the list of lines
  the loop handles and, when a read fails while a line is still buffered, the error
  that \<open>scanner.Err()\<close> shows inside the loop, which ends it.  \<open>buildImageFromName\<close>
  forwards every line of the pull response; in \<open>buildImageFromDockerfile\<close> each line
  of the build response is \<open>None\<close> when \<open>json.Unmarshal\<close> rejects it (a warning,
  nothing forwarded) and \<open>Some stream\<close> otherwise, forwarded when the stream is not
  empty.  Both return the error and the messages handed to \<open>onMsg\<close>.
\<close>

definition buildImageFromName :: "DockerClient \<Rightarrow> string \<Rightarrow> error option \<times> string list" where
  "buildImageFromName cli imageName =
     (case ImagePull cli imageName of
        Inl err \<Rightarrow> (Some err, [])
      | Inr (lines, failure) \<Rightarrow> (failure, lines))"

definition buildImageFromDockerfile :: "DockerClient \<Rightarrow> string \<Rightarrow> string
    \<Rightarrow> error option \<times> string list" where
  "buildImageFromDockerfile cli instancePath imageName =
     (case TarWithOptions cli instancePath of
        Some err \<Rightarrow> (Some err, [])
      | None \<Rightarrow>
          (case ImageBuild cli instancePath imageName of
             Inl err \<Rightarrow> (Some err, [])
           | Inr (msgs, failure) \<Rightarrow>
               (failure, List.map_filter
                        (\<lambda>msg. case msg of None \<Rightarrow> None
                                | Some stream \<Rightarrow> if stream \<noteq> '''' then Some stream else None)
                        msgs)))"

text \<open>
  The port loop of \<open>Start\<close>.  \<open>instance.EnvVariables[e.Name]\<close> reads a Go map, which gives
  the empty string for a missing key.  The inner loop stops at the first definition of
  type \<open>port\<close> whose default is the advertised string \<open>out\<close>.
\<close>

definition envValue :: "(string \<rightharpoonup> string) \<Rightarrow> string \<Rightarrow> string" where
  "envValue vars name = (case vars name of None \<Rightarrow> '''' | Some v \<Rightarrow> v)"

fun portSpecFor :: "(string \<rightharpoonup> string) \<Rightarrow> string \<Rightarrow> EnvDefinition list \<Rightarrow> string option" where
  "portSpecFor vars out [] = None"
| "portSpecFor vars out (e # es) =
     (if env_Type e = ''port'' \<and> env_Default e = out
      then Some (envValue vars (env_Name e) @ '':'' @ out)
      else portSpecFor vars out es)"

fun portSpecs :: "(string \<rightharpoonup> string) \<Rightarrow> EnvDefinition list \<Rightarrow> string list \<Rightarrow> string list" where
  "portSpecs vars defs [] = []"
| "portSpecs vars defs (out # outs) =
     (case portSpecFor vars out defs of
        None \<Rightarrow> portSpecs vars defs outs
      | Some spec \<Rightarrow> spec # portSpecs vars defs outs)"

text \<open>
  The volume loop ranges over a Go map, here the list of its entries in the order of
  the range: the first failing \<open>filepath.Abs\<close> returns its error.  Every success
  overwrites the \<open>err\<close> variable of \<open>Start\<close> with nil, so after the loop \<open>err\<close> is still
  \<open>ErrContainerNotFound\<close> exactly when no volume was bound; \<open>createIfAbsent\<close> keeps
  that value for the case where neither \<open>createContainer\<close> call is made.
\<close>

fun volumeBinds :: "DockerClient \<Rightarrow> string \<Rightarrow> (string \<times> string) list \<Rightarrow> error + string list" where
  "volumeBinds cli instancePath [] = Inr []"
| "volumeBinds cli instancePath ((source, target) # vs) =
     (case VolumeAbs cli instancePath source of
        Inl err \<Rightarrow> Inl err
      | Inr absSource \<Rightarrow>
          (case volumeBinds cli instancePath vs of
             Inl err \<Rightarrow> Inl err
           | Inr binds \<Rightarrow> Inr ((absSource @ '':'' @ target) # binds)))"

definition createContainer :: "DockerClient \<Rightarrow> string \<Rightarrow> string \<Rightarrow> string list \<Rightarrow> string list
    \<Rightarrow> string \<times> error option" where
  "createContainer cli imageName containerName portBindings binds =
     ContainerCreate cli imageName containerName portBindings binds"

definition createIfAbsent :: "DockerClient \<Rightarrow> Instance \<Rightarrow> error + string" where
  "createIfAbsent cli instance =
     (case getID cli instance of
        Inr containerID \<Rightarrow> Inr containerID
      | Inl err \<Rightarrow>
          if err \<noteq> ErrContainerNotFound then Inl err
          else
            (case (case Ports (Docker instance) of
                     None \<Rightarrow> Inr []
                   | Some ports \<Rightarrow>
                       (let all = portSpecs (EnvVariables instance) (EnvDefinitions instance) ports
                        in case ParsePortSpecs cli all of
                             Some perr \<Rightarrow> Inl perr
                           | None \<Rightarrow> Inr all)) of
               Inl perr \<Rightarrow> Inl perr
             | Inr portBindings \<Rightarrow>
                 (case (case Volumes (Docker instance) of
                          None \<Rightarrow> Inr []
                        | Some vs \<Rightarrow> volumeBinds cli (InstancePath cli (UUID instance)) vs) of
                    Inl verr \<Rightarrow> Inl verr
                  | Inr binds \<Rightarrow>
                      (let err' = (if binds = [] then Some ErrContainerNotFound else None);
                           (containerID, err'') =
                             (if Dockerfile (Docker instance) \<noteq> None then
                                createContainer cli (DockerImageName instance)
                                  (DockerContainerName instance) portBindings binds
                              else (case Image (Docker instance) of
                                      Some img \<Rightarrow>
                                        createContainer cli img
                                          (DockerContainerName instance) portBindings binds
                                    | None \<Rightarrow> ('''', err')))
                       in case err'' of
                            Some cerr \<Rightarrow> Inl cerr
                          | None \<Rightarrow> Inr containerID))))"

definition Start :: "DockerClient \<Rightarrow> Instance \<Rightarrow> error option \<times> callback list" where
  "Start cli instance =
     (let t0 = [SetStatus InstanceStatusBuilding];
          instancePath = InstancePath cli (UUID instance);
          (err, msgs) =
            (if Dockerfile (Docker instance) \<noteq> None then
               buildImageFromDockerfile cli instancePath (DockerImageName instance)
             else (case Image (Docker instance) of
                     Some img \<Rightarrow> buildImageFromName cli img
                   | None \<Rightarrow> (Some ErrNoDockerMethods, [])));
          t1 = t0 @ map OnLog msgs
      in case err of
           Some berr \<Rightarrow> (Some berr, t1 @ [OnErr berr])
         | None \<Rightarrow>
             (case createIfAbsent cli instance of
                Inl cerr \<Rightarrow> (Some cerr, t1)
              | Inr containerID \<Rightarrow>
                  (case ContainerStart cli containerID of
                     Some serr \<Rightarrow> (Some serr, t1 @ [SetStatus InstanceStatusError])
                   | None \<Rightarrow> (None, t1 @ [SetStatus InstanceStatusRunning]))))"

text \<open>The status values handed to \<open>setStatus\<close> during a run, in order.\<close>

fun statuses :: "callback list \<Rightarrow> string list" where
  "statuses [] = []"
| "statuses (SetStatus s # cs) = s # statuses cs"
| "statuses (_ # cs) = statuses cs"

text \<open>
  Concrete inputs: a daemon that holds no container and answers every call with
  success, the same daemon refusing the image pull, a daemon that holds the instance's
  container and is busy removing it, a daemon whose listing fails, one that lists the
  instance's container name as a second name only, one that lists a container without
  names, and one that creates a container only with the binding \<open>8080:80/tcp\<close>; an
  instance of the image \<open>nginx:latest\<close> that advertises the port \<open>80/tcp\<close> and declares
  the port variable \<open>PORT\<close> with default \<open>80\<close> and value \<open>8080\<close>, and the same
  instance advertising \<open>80/tcp\<close> and \<open>443/tcp\<close> with the default \<open>80/tcp\<close>.
\<close>

definition idleDocker :: DockerClient where
  "idleDocker =
     \<lparr>ContainerList = Inr [],
      ContainerRemove = (\<lambda>containerID. None),
      ContainerStart = (\<lambda>containerID. None),
      ContainerCreate = (\<lambda>imageName containerName portBindings binds. (''c0ffee'', None)),
      ImagePull = (\<lambda>imageName. Inr ([''Pulling from library/nginx''], None)),
      TarWithOptions = (\<lambda>instancePath. None),
      ImageBuild = (\<lambda>instancePath imageName. Inr ([], None)),
      ParsePortSpecs = (\<lambda>specs. None),
      VolumeAbs = (\<lambda>instancePath source. Inr (instancePath @ ''/volumes/'' @ source)),
      InstancePath = (\<lambda>u. ''/live/instances/'' @ u)\<rparr>"

definition pullRefusedDocker :: DockerClient where
  "pullRefusedDocker = idleDocker\<lparr>ImagePull := (\<lambda>imageName. Inl (Err ''pull access denied''))\<rparr>"

definition busyDocker :: DockerClient where
  "busyDocker =
     idleDocker
       \<lparr>ContainerList :=
          Inr [\<lparr>Names = [''/other''], ID = ''0a1b''\<rparr>,
               \<lparr>Names = [''/VERTEX_CONTAINER_7d444840-9dc0-11d1-b245-5ffdce74fad2''],
                ID = ''beef''\<rparr>],
        ContainerRemove :=
          (\<lambda>containerID. if containerID = ''beef'' then Some (Err ''removal in progress'')
                          else Some (Err ''no such container''))\<rparr>"

definition listFailsDocker :: DockerClient where
  "listFailsDocker =
     idleDocker\<lparr>ContainerList := Inl (Err ''Cannot connect to the Docker daemon'')\<rparr>"

definition aliasDocker :: DockerClient where
  "aliasDocker =
     idleDocker
       \<lparr>ContainerList :=
          Inr [\<lparr>Names = [''/proxy'', ''/VERTEX_CONTAINER_7d444840-9dc0-11d1-b245-5ffdce74fad2''],
                ID = ''0a1b''\<rparr>]\<rparr>"

definition namelessDocker :: DockerClient where
  "namelessDocker = idleDocker\<lparr>ContainerList := Inr [\<lparr>Names = [], ID = ''dead''\<rparr>]\<rparr>"

definition strictDocker :: DockerClient where
  "strictDocker =
     idleDocker
       \<lparr>ContainerCreate :=
          (\<lambda>imageName containerName portBindings binds.
             if portBindings = [''8080:80/tcp''] then (''c0ffee'', None)
             else ('''', Some (Err ''unexpected port bindings'')))\<rparr>"

definition nginxInstance :: Instance where
  "nginxInstance =
     \<lparr>UUID = ''7d444840-9dc0-11d1-b245-5ffdce74fad2'',
      Docker = \<lparr>Dockerfile = None, Image = Some ''nginx:latest'',
                Ports = Some [''80/tcp''], Volumes = None\<rparr>,
      EnvDefinitions = [\<lparr>env_Type = ''port'', env_Name = ''PORT'', env_Default = ''80''\<rparr>],
      EnvVariables = [''PORT'' \<mapsto> ''8080'']\<rparr>"

definition protoInstance :: Instance where
  "protoInstance =
     nginxInstance
       \<lparr>Docker := \<lparr>Dockerfile = None, Image = Some ''nginx:latest'',
                    Ports = Some [''80/tcp'', ''443/tcp''], Volumes = None\<rparr>,
        EnvDefinitions := [\<lparr>env_Type = ''port'', env_Name = ''PORT'',
                            env_Default = ''80/tcp''\<rparr>]\<rparr>"

section \<open>Instance repository (repository/instance.go)\<close>

text \<open>
  The disk is a record: the regular files by path, the paths whose access fails with an
  error other than ``does not exist'', the paths where a write fails after a number of
  successful writes, the listing of the instances directory, and the library functions
  that decode what is read (\<open>uuid.Parse\<close>, \<open>json.Unmarshal\<close>) together with
  \<open>types.NewInstance\<close>, which is declared outside the file.  \<open>path.Join\<close> is applied to
  clean, non-empty elements only, where it joins them with a slash.
\<close>

record Metadata =
  UseDocker :: bool
  UseReleases :: bool

record RepoInstance =
  ri_UUID :: uuid
  ri_Service :: Service
  ri_InstanceMetadata :: Metadata
  ri_Entries :: "string \<rightharpoonup> string"

record DirEntry =
  de_Name :: string
  de_IsDir :: bool
  de_Info :: "error + bool"

datatype readfile = NotExist | ReadFailed error | Content string

record Disk =
  files :: "string \<rightharpoonup> string"
  ioError :: "string \<Rightarrow> error option"
  writeError :: "string \<Rightarrow> (nat \<times> error) option"
  ReadDir :: "error + DirEntry list"
  RemoveAll :: "string \<Rightarrow> error option"
  PathInstances :: string
  UUIDParse :: "string \<Rightarrow> error + uuid"
  UnmarshalService :: "string \<Rightarrow> error + Service"
  UnmarshalMetadata :: "string \<Rightarrow> error + Metadata"
  NewInstance :: "uuid \<Rightarrow> Service \<Rightarrow> string \<Rightarrow> error + RepoInstance"

fun pathJoin :: "string list \<Rightarrow> string" where
  "pathJoin [] = ''''"
| "pathJoin [p] = p"
| "pathJoin (p # ps) = p @ ''/'' @ pathJoin ps"

definition ReadFile :: "Disk \<Rightarrow> string \<Rightarrow> readfile" where
  "ReadFile d p =
     (case ioError d p of
        Some err \<Rightarrow> ReadFailed err
      | None \<Rightarrow> (case files d p of None \<Rightarrow> NotExist | Some data \<Rightarrow> Content data))"

text \<open>
  A listener is a channel; the model keeps for each listener the events sent on it,
  oldest first.  The sends of \<open>notifyListeners\<close> block until the listener receives, so a
  call that returns has delivered the event to every listener.  The table of an
  instance's own listeners, which \<open>instance.Register\<close> extends, is not part of the
  catalog and is left out.
\<close>

datatype InstanceEvent = InstanceEvent (ev_Name: string)

definition EventChange :: string where
  "EventChange = ''change''"

record InstanceFSRepository =
  instances :: "uuid \<rightharpoonup> RepoInstance"
  listeners :: "uuid \<rightharpoonup> InstanceEvent list"

definition notifyListeners :: "InstanceEvent \<Rightarrow> InstanceFSRepository \<Rightarrow> InstanceFSRepository" where
  "notifyListeners event r =
     r\<lparr>listeners := (\<lambda>l. map_option (\<lambda>sent. sent @ [event]) (listeners r l))\<rparr>"

definition GetPath :: "Disk \<Rightarrow> uuid \<Rightarrow> string" where
  "GetPath d u = pathJoin [PathInstances d, u]"

definition Exists :: "InstanceFSRepository \<Rightarrow> uuid \<Rightarrow> bool" where
  "Exists r u = (instances r u \<noteq> None)"

definition repo_Set :: "uuid \<Rightarrow> RepoInstance \<Rightarrow> InstanceFSRepository
    \<Rightarrow> error option \<times> InstanceFSRepository" where
  "repo_Set u instance r =
     (if Exists r u then (Some (ErrAlreadyExists u), r)
      else (None, notifyListeners (InstanceEvent EventChange)
                    (r\<lparr>instances := (instances r)(u \<mapsto> instance)\<rparr>)))"

definition repo_Delete :: "Disk \<Rightarrow> uuid \<Rightarrow> InstanceFSRepository
    \<Rightarrow> error option \<times> InstanceFSRepository" where
  "repo_Delete d u r =
     (case RemoveAll d (GetPath d u) of
        Some err \<Rightarrow> (Some (ErrFailedToDelete u err), r)
      | None \<Rightarrow>
          (None, notifyListeners (InstanceEvent EventChange)
                   (r\<lparr>instances := (instances r)(u := None)\<rparr>)))"

text \<open>
  \<open>ReadService\<close> only warns when the file cannot be read and decodes the bytes it has,
  which are none.  \<open>LoadMetadata\<close> keeps the instance's metadata when the file does not
  exist.
\<close>

definition ReadService :: "Disk \<Rightarrow> string \<Rightarrow> error + Service" where
  "ReadService d instancePath =
     UnmarshalService d
       (case ReadFile d (pathJoin [instancePath, ''.vertex'', ''service.json'']) of
          Content data \<Rightarrow> data
        | _ \<Rightarrow> '''')"

definition LoadMetadata :: "Disk \<Rightarrow> RepoInstance \<Rightarrow> error option \<times> RepoInstance" where
  "LoadMetadata d i =
     (case ReadFile d (pathJoin [GetPath d (ri_UUID i), ''.vertex'', ''instance_metadata.json'']) of
        NotExist \<Rightarrow> (None, i)
      | ReadFailed err \<Rightarrow> (Some err, i)
      | Content metaBytes \<Rightarrow>
          (case UnmarshalMetadata d metaBytes of
             Inl err \<Rightarrow> (Some err, i)
           | Inr meta \<Rightarrow> (None, i\<lparr>ri_InstanceMetadata := meta\<rparr>)))"

definition Load :: "Disk \<Rightarrow> uuid \<Rightarrow> InstanceFSRepository
    \<Rightarrow> (error + RepoInstance) \<times> InstanceFSRepository" where
  "Load d u r =
     (let instancePath = pathJoin [PathInstances d, u]
      in case ReadService d instancePath of
           Inl err \<Rightarrow> (Inl err, r)
         | Inr service \<Rightarrow>
             (case NewInstance d u service instancePath of
                Inl err \<Rightarrow> (Inl err, r)
              | Inr instance \<Rightarrow>
                  (case LoadMetadata d instance of
                     (Some err, _) \<Rightarrow> (Inl err, r)
                   | (None, instance') \<Rightarrow>
                       (case repo_Set u instance' r of
                          (Some err, r') \<Rightarrow> (Inl err, r')
                        | (None, r') \<Rightarrow> (Inr instance', r')))))"

text \<open>
  \<open>reload\<close> ends either by returning or in \<open>log.Fatal\<close>, which exits the process.
  \<open>r.Close()\<close> closes log files and uptime storages and changes nothing of the model.
\<close>

datatype 'a outcome = Fatal error | Done 'a

fun scanEntries :: "Disk \<Rightarrow> DirEntry list \<Rightarrow> InstanceFSRepository
    \<Rightarrow> InstanceFSRepository outcome" where
  "scanEntries d [] r = Done r"
| "scanEntries d (entry # entries) r =
     (case de_Info entry of
        Inl err \<Rightarrow> Fatal err
      | Inr symlink \<Rightarrow>
          if de_IsDir entry \<or> symlink then
            (case UUIDParse d (de_Name entry) of
               Inl err \<Rightarrow> Fatal err
             | Inr u \<Rightarrow>
                 (case Load d u r of
                    (Inl err, _) \<Rightarrow> Fatal err
                  | (Inr _, r') \<Rightarrow> scanEntries d entries r'))
          else scanEntries d entries r)"

definition reload :: "Disk \<Rightarrow> InstanceFSRepository \<Rightarrow> InstanceFSRepository outcome" where
  "reload d r =
     (case ReadDir d of
        Inl err \<Rightarrow> Fatal err
      | Inr entries \<Rightarrow> scanEntries d entries r)"

subsection \<open>The .env file\<close>

text \<open>
  \<open>SaveEnv\<close> opens the file with \<open>O_WRONLY|O_CREATE\<close> and without \<open>O_TRUNC\<close>: the
  bytes it writes replace the bytes at the start of the previous content, and what
  the previous content holds beyond them stays in the file.  The variables are a Go
  map, ranged over in an order the language leaves open; the model takes them as the
  list of entries in the order of the range (keys distinct).  A failing
  \<open>WriteString\<close> is taken to write nothing.
\<close>

definition newline :: char where
  "newline = CHR 0x0A"

definition carriageReturn :: char where
  "carriageReturn = CHR 0x0D"

definition envLine :: "string \<times> string \<Rightarrow> string" where
  "envLine kv = fst kv @ ''='' @ snd kv @ [newline]"

definition overwrite :: "string \<Rightarrow> string \<Rightarrow> string" where
  "overwrite old written = written @ drop (length written) old"

definition SaveEnv :: "Disk \<Rightarrow> RepoInstance \<Rightarrow> (string \<times> string) list
    \<Rightarrow> error option \<times> Disk \<times> RepoInstance" where
  "SaveEnv d i variables =
     (let filepath = pathJoin [GetPath d (ri_UUID i), ''.env'']
      in case ioError d filepath of
           Some err \<Rightarrow> (Some err, d, i)
         | None \<Rightarrow>
             (let old = (case files d filepath of None \<Rightarrow> '''' | Some data \<Rightarrow> data)
              in case writeError d filepath of
                   None \<Rightarrow>
                     (None,
                      d\<lparr>files := (files d)(filepath \<mapsto>
                                     overwrite old (concat (map envLine variables)))\<rparr>,
                      i\<lparr>ri_Entries := map_of variables\<rparr>)
                 | Some (n, err) \<Rightarrow>
                     if n < length variables then
                       (Some err,
                        d\<lparr>files := (files d)(filepath \<mapsto>
                                       overwrite old (concat (map envLine (take n variables))))\<rparr>,
                        i)
                     else
                       (None,
                        d\<lparr>files := (files d)(filepath \<mapsto>
                                       overwrite old (concat (map envLine variables)))\<rparr>,
                        i\<lparr>ri_Entries := map_of variables\<rparr>)))"

text \<open>
  \<open>bufio.Scanner\<close> with its default split function: the input is cut at every newline,
  a last line without newline counts when it is not empty, one trailing carriage
  return is dropped from each line, and a line of \<open>MaxScanTokenSize\<close> bytes or more
  stops the scan (\<open>Scan\<close> returns false; \<open>LoadEnv\<close> does not look at the scanner's
  error).
\<close>

fun rawLines :: "string \<Rightarrow> string list" where
  "rawLines [] = []"
| "rawLines (c # cs) =
     (if c = newline then [] # rawLines cs
      else (case rawLines cs of [] \<Rightarrow> [[c]] | l # ls \<Rightarrow> (c # l) # ls))"

definition dropCR :: "string \<Rightarrow> string" where
  "dropCR l = (if l \<noteq> [] \<and> last l = carriageReturn then butlast l else l)"

definition MaxScanTokenSize :: nat where
  "MaxScanTokenSize = 65536"

definition scanLines :: "string \<Rightarrow> string list" where
  "scanLines data = map dropCR (takeWhile (\<lambda>l. length l < MaxScanTokenSize) (rawLines data))"

text \<open>\<open>strings.Split(s, "=")\<close>: the pieces of \<open>s\<close> between the separators, at least one.\<close>

fun splitOn :: "char \<Rightarrow> string \<Rightarrow> string list" where
  "splitOn sep [] = [[]]"
| "splitOn sep (c # cs) =
     (if c = sep then [] # splitOn sep cs
      else (case splitOn sep cs of [] \<Rightarrow> [[c]] | p # ps \<Rightarrow> (c # p) # ps))"

fun loadLines :: "string list \<Rightarrow> (string \<rightharpoonup> string) \<Rightarrow> error option \<times> (string \<rightharpoonup> string)" where
  "loadLines [] entries = (None, entries)"
| "loadLines (line # rest) entries =
     (case splitOn (CHR ''='') line of
        key # val # _ \<Rightarrow> loadLines rest (entries(key \<mapsto> val))
      | _ \<Rightarrow> (Some ErrFailedToReadEnv, entries))"

definition LoadEnv :: "Disk \<Rightarrow> RepoInstance \<Rightarrow> error option \<times> RepoInstance" where
  "LoadEnv d i =
     (case ReadFile d (pathJoin [GetPath d (ri_UUID i), ''.env'']) of
        NotExist \<Rightarrow> (None, i)
      | ReadFailed err \<Rightarrow> (Some err, i)
      | Content data \<Rightarrow>
          (case loadLines (scanLines data) (ri_Entries i) of
             (err, entries) \<Rightarrow> (err, i\<lparr>ri_Entries := entries\<rparr>)))"

text \<open>
  The maps that a save followed by a load can give back: distinct keys, no equals sign
  and no newline in keys and values, no value that ends in a carriage return, and every
  line shorter than the scanner's limit.
\<close>

definition envSafe :: "(string \<times> string) list \<Rightarrow> bool" where
  "envSafe kvs = (distinct (map fst kvs) \<and>
     list_all (\<lambda>kv. CHR ''='' \<notin> set (fst kv) \<and> newline \<notin> set (fst kv)
                  \<and> CHR ''='' \<notin> set (snd kv) \<and> newline \<notin> set (snd kv)
                  \<and> (snd kv = [] \<or> last (snd kv) \<noteq> carriageReturn)
                  \<and> length (fst kv) + length (snd kv) + 1 < MaxScanTokenSize) kvs)"

text \<open>
  Concrete inputs: a disk whose instances directory holds one \<open>.env\<close> file with two
  variables, and the instance it belongs to.  The parser of the example disk takes the
  two forms of \<open>uuid.Parse\<close> that the examples use, the canonical text and the same
  text in braces.
\<close>

definition emptyDisk :: Disk where
  "emptyDisk =
     \<lparr>files = Map.empty,
      ioError = (\<lambda>p. None),
      writeError = (\<lambda>p. None),
      ReadDir = Inr [],
      RemoveAll = (\<lambda>p. None),
      PathInstances = ''live/instances'',
      UUIDParse = (\<lambda>name. if length name = 36 then Inr name
                            else if length name = 38 then Inr (take 36 (drop 1 name))
                            else Inl (Err ''invalid UUID length'')),
      UnmarshalService = (\<lambda>data. if data = '''' then Inl (Err ''unexpected end of JSON input'')
                                  else Inr \<lparr>svc_ID = data, svc_Name = data, svc_Version = 1\<rparr>),
      UnmarshalMetadata = (\<lambda>data. Inr \<lparr>UseDocker = True, UseReleases = False\<rparr>),
      NewInstance = (\<lambda>u service instancePath.
                       Inr \<lparr>ri_UUID = u, ri_Service = service,
                            ri_InstanceMetadata = \<lparr>UseDocker = False, UseReleases = False\<rparr>,
                            ri_Entries = Map.empty\<rparr>)\<rparr>"

definition redisUUID :: uuid where
  "redisUUID = ''7d444840-9dc0-11d1-b245-5ffdce74fad2''"

definition redisInstance :: RepoInstance where
  "redisInstance =
     \<lparr>ri_UUID = redisUUID,
      ri_Service = \<lparr>svc_ID = ''redis'', svc_Name = ''Redis'', svc_Version = 1\<rparr>,
      ri_InstanceMetadata = \<lparr>UseDocker = False, UseReleases = False\<rparr>,
      ri_Entries = Map.empty\<rparr>"

definition envDisk :: Disk where
  "envDisk =
     emptyDisk\<lparr>files :=
       [''live/instances/7d444840-9dc0-11d1-b245-5ffdce74fad2/.env''
          \<mapsto> ''PASSWORD=secret'' @ [newline] @ ''PORT=6379'' @ [newline]]\<rparr>"

text \<open>
  Concrete inputs: a repository that holds the Redis instance and has one listener, and
  instances directories, each listed in the order of the file names as \<open>os.ReadDir\<close>
  returns them: the directory of the Redis instance (manifest present) behind a
  directory whose name is no UUID; behind a directory named by a UUID that has no
  manifest; followed by a symlink whose name parses to the same UUID; behind an entry
  whose \<open>Info\<close> fails; and behind a plain file.
\<close>

definition emptyRepo :: InstanceFSRepository where
  "emptyRepo = \<lparr>instances = Map.empty, listeners = [''listener-1'' \<mapsto> []]\<rparr>"

definition redisRepo :: InstanceFSRepository where
  "redisRepo = \<lparr>instances = [redisUUID \<mapsto> redisInstance], listeners = [''listener-1'' \<mapsto> []]\<rparr>"

definition redisEntry :: DirEntry where
  "redisEntry = \<lparr>de_Name = redisUUID, de_IsDir = True, de_Info = Inr False\<rparr>"

definition backupEntry :: DirEntry where
  "backupEntry = \<lparr>de_Name = ''0-backup'', de_IsDir = True, de_Info = Inr False\<rparr>"

definition zeroEntry :: DirEntry where
  "zeroEntry = \<lparr>de_Name = ''00000000-0000-0000-0000-000000000000'',
                de_IsDir = True, de_Info = Inr False\<rparr>"

definition bracedEntry :: DirEntry where
  "bracedEntry = \<lparr>de_Name = ''{7d444840-9dc0-11d1-b245-5ffdce74fad2}'',
                  de_IsDir = False, de_Info = Inr True\<rparr>"

definition staleEntry :: DirEntry where
  "staleEntry = \<lparr>de_Name = ''.stale'', de_IsDir = False,
                 de_Info = Inl (Err ''lstat .stale: no such file or directory'')\<rparr>"

definition keepEntry :: DirEntry where
  "keepEntry = \<lparr>de_Name = ''.gitkeep'', de_IsDir = False, de_Info = Inr False\<rparr>"

definition redisFiles :: "string \<rightharpoonup> string" where
  "redisFiles =
     [''live/instances/7d444840-9dc0-11d1-b245-5ffdce74fad2/.vertex/service.json'' \<mapsto> ''redis'']"

definition badNameDisk :: Disk where
  "badNameDisk = emptyDisk\<lparr>files := redisFiles, ReadDir := Inr [backupEntry, redisEntry]\<rparr>"

definition noManifestDisk :: Disk where
  "noManifestDisk = emptyDisk\<lparr>files := redisFiles, ReadDir := Inr [zeroEntry, redisEntry]\<rparr>"

definition twinDisk :: Disk where
  "twinDisk = emptyDisk\<lparr>files := redisFiles, ReadDir := Inr [redisEntry, bracedEntry]\<rparr>"

definition staleDisk :: Disk where
  "staleDisk = emptyDisk\<lparr>files := redisFiles, ReadDir := Inr [staleEntry, redisEntry]\<rparr>"

definition keepDisk :: Disk where
  "keepDisk = emptyDisk\<lparr>files := redisFiles, ReadDir := Inr [keepEntry, redisEntry]\<rparr>"

section \<open>Reverse proxy redirects (apps/reverseproxy/adapter/proxy\_fs.go)\<close>

text \<open>
  The adapter keeps the redirects in a Go map from identifier to redirect.  \<open>write\<close>
  encodes the map and writes \<open>redirects.json\<close>; the file is left out of the model and
  the outcome of the write is a parameter of each call.  The mutex guards the map
  against concurrent calls and has no part in a sequential run.  \<open>GetRedirectByHost\<close>
  ranges over the map in an order the language leaves open, which is a parameter.
\<close>

record ProxyRedirect =
  Source :: string
  Target :: string

record ProxyFSAdapter =
  redirects :: "uuid \<rightharpoonup> ProxyRedirect"
  proxyPath :: string

definition GetRedirects :: "ProxyFSAdapter \<Rightarrow> (uuid \<rightharpoonup> ProxyRedirect)" where
  "GetRedirects a = redirects a"

fun firstWithSource :: "(uuid \<rightharpoonup> ProxyRedirect) \<Rightarrow> string \<Rightarrow> uuid list \<Rightarrow> ProxyRedirect option" where
  "firstWithSource m host [] = None"
| "firstWithSource m host (k # ks) =
     (case m k of
        None \<Rightarrow> firstWithSource m host ks
      | Some redirect \<Rightarrow>
          if Source redirect = host then Some redirect else firstWithSource m host ks)"

definition GetRedirectByHost :: "uuid list \<Rightarrow> ProxyFSAdapter \<Rightarrow> string \<Rightarrow> ProxyRedirect option" where
  "GetRedirectByHost rangeOrder a host = firstWithSource (redirects a) host rangeOrder"

definition AddRedirect :: "error option \<Rightarrow> uuid \<Rightarrow> ProxyRedirect \<Rightarrow> ProxyFSAdapter
    \<Rightarrow> error option \<times> ProxyFSAdapter" where
  "AddRedirect written k redirect a = (written, a\<lparr>redirects := (redirects a)(k \<mapsto> redirect)\<rparr>)"

definition RemoveRedirect :: "error option \<Rightarrow> uuid \<Rightarrow> ProxyFSAdapter
    \<Rightarrow> error option \<times> ProxyFSAdapter" where
  "RemoveRedirect written k a = (written, a\<lparr>redirects := (redirects a)(k := None)\<rparr>)"

text \<open>
  A finite sequence of calls, each with the outcome of its write, and the adapter it
  leaves; \<open>lastCallOn\<close> finds the last call made on an identifier.
\<close>

datatype proxyCall = Add uuid ProxyRedirect "error option" | Remove uuid "error option"

fun applyCalls :: "proxyCall list \<Rightarrow> ProxyFSAdapter \<Rightarrow> ProxyFSAdapter" where
  "applyCalls [] a = a"
| "applyCalls (Add k redirect written # calls) a =
     applyCalls calls (snd (AddRedirect written k redirect a))"
| "applyCalls (Remove k written # calls) a =
     applyCalls calls (snd (RemoveRedirect written k a))"

fun callKey :: "proxyCall \<Rightarrow> uuid" where
  "callKey (Add k redirect written) = k"
| "callKey (Remove k written) = k"

definition lastCallOn :: "uuid \<Rightarrow> proxyCall list \<Rightarrow> proxyCall option" where
  "lastCallOn k calls = find (\<lambda>c. callKey c = k) (rev calls)"

definition emptyProxy :: ProxyFSAdapter where
  "emptyProxy = \<lparr>redirects = Map.empty, proxyPath = ''live/proxy''\<rparr>"

section \<open>Native start (services/instance/instance.go)\<close>

text \<open>
  The operating system is a record of outcomes: \<open>os.Stat\<close> by path, the two pipes, and
  \<open>cmd.Start\<close>.  \<open>i.cmd\<close> is the process handle, nil until \<open>startManually\<close> assigns it.  An
  instance's listeners are channels, kept as the events sent on each.  The two
  goroutines that pump the output pipes into the logs are left out; the third
  goroutine, which waits for the process and then sets the status, is \<open>reaper\<close>, run
  when the process has exited with the given result of \<open>cmd.Wait\<close>.
\<close>

datatype stat = StatOK | StatNotExist | StatFailed error

record Cmd =
  cmd_Path :: string
  cmd_Dir :: string

datatype Event = Event (event_Name: string) (event_Data: string)

record NativeInstance =
  ni_ID :: string
  ni_Name :: string
  ni_UUID :: uuid
  ni_Status :: string
  ni_cmd :: "Cmd option"
  ni_listeners :: "uuid \<rightharpoonup> Event list"

record NativeOS =
  os_PathInstances :: string
  os_Stat :: "string \<Rightarrow> stat"
  os_StdoutPipe :: "error option"
  os_StderrPipe :: "error option"
  os_Start :: "Cmd \<Rightarrow> error option"

definition StatusOff :: string where
  "StatusOff = ''off''"

definition StatusRunning :: string where
  "StatusRunning = ''running''"

definition EventStatusChange :: string where
  "EventStatusChange = ''status_change''"

definition setStatus :: "string \<Rightarrow> NativeInstance \<Rightarrow> NativeInstance" where
  "setStatus status i =
     i\<lparr>ni_Status := status,
       ni_listeners :=
         (\<lambda>l. map_option (\<lambda>sent. sent @ [Event EventStatusChange status]) (ni_listeners i l))\<rparr>"

definition startManually :: "NativeOS \<Rightarrow> NativeInstance \<Rightarrow> error option \<times> NativeInstance" where
  "startManually os i =
     (let dir = pathJoin [os_PathInstances os, ni_UUID i];
          executable = ni_ID i;
          found =
            (case os_Stat os (pathJoin [dir, executable]) of
               StatNotExist \<Rightarrow>
                 (case os_Stat os (pathJoin [dir, executable @ ''.sh'']) of
                    StatNotExist \<Rightarrow> Inl (ErrExecutableNotFound (ni_ID i))
                  | StatFailed err \<Rightarrow> Inl err
                  | StatOK \<Rightarrow> Inr (''./'' @ ni_ID i @ ''.sh''))
             | StatFailed err \<Rightarrow> Inl err
             | StatOK \<Rightarrow> Inr (''./'' @ ni_ID i))
      in case found of
           Inl err \<Rightarrow> (Some err, i)
         | Inr command \<Rightarrow>
             (let i1 = i\<lparr>ni_cmd := Some \<lparr>cmd_Path = command, cmd_Dir = dir\<rparr>\<rparr>
              in case os_StdoutPipe os of
                   Some err \<Rightarrow> (Some err, i1)
                 | None \<Rightarrow>
                     (case os_StderrPipe os of
                        Some err \<Rightarrow> (Some err, i1)
                      | None \<Rightarrow>
                          (let i2 = setStatus StatusRunning i1
                           in case os_Start os \<lparr>cmd_Path = command, cmd_Dir = dir\<rparr> of
                                Some err \<Rightarrow> (Some err, i2)
                              | None \<Rightarrow> (None, i2)))))"

definition reaper :: "error option \<Rightarrow> NativeInstance \<Rightarrow> NativeInstance" where
  "reaper waited i = setStatus StatusOff i"

text \<open>
  Concrete inputs: an instance of the service \<open>hello\<close> that is off, and a host where the
  file \<open>hello\<close> exists in the instance's directory but cannot be executed.
\<close>

definition helloInstance :: NativeInstance where
  "helloInstance =
     \<lparr>ni_ID = ''hello'', ni_Name = ''Hello'', ni_UUID = redisUUID, ni_Status = ''off'',
      ni_cmd = None, ni_listeners = [''listener-1'' \<mapsto> []]\<rparr>"

definition noExecOS :: NativeOS where
  "noExecOS =
     \<lparr>os_PathInstances = ''live/instances'',
      os_Stat = (\<lambda>p. if p = ''live/instances/7d444840-9dc0-11d1-b245-5ffdce74fad2/hello''
                       then StatOK else StatNotExist),
      os_StdoutPipe = None,
      os_StderrPipe = None,
      os_Start = (\<lambda>c. Some (Err ''fork/exec ./hello: permission denied''))\<rparr>"

definition helloOS :: NativeOS where
  "helloOS = noExecOS\<lparr>os_Start := (\<lambda>c. None)\<rparr>"

definition unreadableDisk :: Disk where
  "unreadableDisk =
     emptyDisk\<lparr>ReadDir := Inl (Err ''open live/instances: no such file or directory'')\<rparr>"

definition appLocal8080 :: ProxyRedirect where
  "appLocal8080 = \<lparr>Source = ''app.local'', Target = ''http://127.0.0.1:8080''\<rparr>"

definition appLocal9090 :: ProxyRedirect where
  "appLocal9090 = \<lparr>Source = ''app.local'', Target = ''http://127.0.0.1:9090''\<rparr>"

section \<open>Theorems\<close>

subsection \<open>Docker runner\<close>

lemma statuses_append: "statuses (xs @ ys) = statuses xs @ statuses ys"
  by (induction xs rule: statuses.induct) simp_all

lemma statuses_OnLog: "statuses (map OnLog msgs) = []"
  by (induction msgs) simp_all

text \<open>
  A run of \<open>Start\<close> ends in one of four ways: the build fails, the lookup or the
  creation of the container fails, \<open>ContainerStart\<close> fails, or all succeed.
\<close>

lemma Start_cases:
  obtains (build) berr msgs where "Start cli i = (Some berr, SetStatus InstanceStatusBuilding # map OnLog msgs @ [OnErr berr])"
  | (create) cerr msgs where "Start cli i = (Some cerr, SetStatus InstanceStatusBuilding # map OnLog msgs)"
  | (start) containerID serr msgs where "createIfAbsent cli i = Inr containerID" "ContainerStart cli containerID = Some serr"
      "Start cli i = (Some serr, SetStatus InstanceStatusBuilding # map OnLog msgs @ [SetStatus InstanceStatusError])"
  | (ok) containerID msgs where "createIfAbsent cli i = Inr containerID" "ContainerStart cli containerID = None"
      "Start cli i = (None, SetStatus InstanceStatusBuilding # map OnLog msgs @ [SetStatus InstanceStatusRunning])"
proof -
  obtain err msgs where b: "(if Dockerfile (Docker i) \<noteq> None then
               buildImageFromDockerfile cli (InstancePath cli (UUID i)) (DockerImageName i)
             else (case Image (Docker i) of
                     Some img \<Rightarrow> buildImageFromName cli img
                   | None \<Rightarrow> (Some ErrNoDockerMethods, []))) = (err, msgs)"
    by (meson surj_pair)
  show thesis
  proof (cases err)
    case (Some berr)
    then show thesis using b build [of berr msgs] by (simp add: Start_def)
  next
    case None
    show thesis
    proof (cases "createIfAbsent cli i")
      case (Inl cerr)
      then show thesis using b None create [of cerr msgs] by (simp add: Start_def)
    next
      case (Inr containerID)
      show thesis
      proof (cases "ContainerStart cli containerID")
        case n: None
        then show thesis using b None Inr ok [of containerID msgs] by (simp add: Start_def)
      next
        case (Some serr)
        then show thesis using b None Inr start [of containerID serr msgs] by (simp add: Start_def)
      qed
    qed
  qed
qed

lemma Start_success_statuses:
  "fst (Start cli i) = None
   \<Longrightarrow> statuses (snd (Start cli i)) = [InstanceStatusBuilding, InstanceStatusRunning]"
  by (cases cli i rule: Start_cases) (simp_all add: statuses_append statuses_OnLog)

lemma Start_failure_statuses:
  "fst (Start cli i) = Some err
   \<Longrightarrow> statuses (snd (Start cli i)) = [InstanceStatusBuilding]
       \<or> statuses (snd (Start cli i)) = [InstanceStatusBuilding, InstanceStatusError]"
  by (cases cli i rule: Start_cases) (simp_all add: statuses_append statuses_OnLog)

text \<open>
  C1. \<open>Start\<close> is meant to end every failing run with \<open>setStatus(error)\<close>.  When the image
  pull is refused, \<open>Start\<close> reports the error through \<open>onErr\<close> and returns it, and the
  only status it has set is \<open>building\<close>: \<open>setStatus(error)\<close> is reached on the
  \<open>ContainerStart\<close> failure alone.
\<close>

theorem Start_pull_refused_stays_building:
  "Start pullRefusedDocker nginxInstance
     = (Some (Err ''pull access denied''),
        [SetStatus ''building'', OnErr (Err ''pull access denied'')])
   \<and> statuses (snd (Start pullRefusedDocker nginxInstance)) = [''building'']"
  by (simp add: Start_def pullRefusedDocker_def idleDocker_def nginxInstance_def
      buildImageFromName_def InstanceStatusBuilding_def)

lemma portSpecFor_find:
  "portSpecFor vars out defs
     = map_option (\<lambda>e. envValue vars (env_Name e) @ '':'' @ out)
         (find (\<lambda>e. env_Type e = ''port'' \<and> env_Default e = out) defs)"
  by (induction defs) simp_all

lemma portSpecs_append:
  "portSpecs vars defs (xs @ ys) = portSpecs vars defs xs @ portSpecs vars defs ys"
  by (induction xs) (simp_all split: option.splits)

lemma portSpecs_skip:
  "portSpecFor vars out defs = None
   \<Longrightarrow> portSpecs vars defs (before @ out # after) = portSpecs vars defs (before @ after)"
  by (simp add: portSpecs_append)

lemma portSpecs_map_filter:
  "portSpecs vars defs ports
     = List.map_filter
         (\<lambda>out. map_option (\<lambda>e. envValue vars (env_Name e) @ '':'' @ out)
                   (find (\<lambda>e. env_Type e = ''port'' \<and> env_Default e = out) defs))
         ports"
  by (induction ports) (simp_all add: portSpecFor_find map_filter_simps split: option.splits)

lemma Start_skip:
  assumes h: "find (\<lambda>e. env_Type e = ''port'' \<and> env_Default e = out) (EnvDefinitions i) = None"
    "Ports (Docker i) = Some (before @ out # after)"
  shows "Start cli i = Start cli (i\<lparr>Docker := (Docker i)\<lparr>Ports := Some (before @ after)\<rparr>\<rparr>)"
proof -
  have none: "portSpecFor (EnvVariables i) out (EnvDefinitions i) = None"
    using h by (simp add: portSpecFor_find)
  have skip: "portSpecs (EnvVariables i) (EnvDefinitions i) (before @ out # after)
                = portSpecs (EnvVariables i) (EnvDefinitions i) (before @ after)"
    using none by (rule portSpecs_skip)
  let ?j = "i\<lparr>Docker := (Docker i)\<lparr>Ports := Some (before @ after)\<rparr>\<rparr>"
  have names: "DockerContainerName ?j = DockerContainerName i"
    "DockerImageName ?j = DockerImageName i"
    by (simp_all add: DockerContainerName_def DockerImageName_def)
  have id: "getID cli ?j = getID cli i"
    unfolding getID_def names by (rule refl)
  have c: "createIfAbsent cli ?j = createIfAbsent cli i"
    unfolding createIfAbsent_def id names using h skip
    by (cases "getID cli i") (simp_all cong: sum.case_cong option.case_cong if_cong)
  show "Start cli i = Start cli ?j"
    unfolding Start_def names c by (simp cong: sum.case_cong option.case_cong if_cong)
qed

lemma createIfAbsent_creates:
  assumes g: "getID cli i = Inl ErrContainerNotFound"
      and p: "Ports (Docker i) = Some ports"
      and s: "specs = List.map_filter
             (\<lambda>out. map_option (\<lambda>e. envValue (EnvVariables i) (env_Name e) @ '':'' @ out)
                       (find (\<lambda>e. env_Type e = ''port'' \<and> env_Default e = out)
                          (EnvDefinitions i)))
             ports"
      and pp: "ParsePortSpecs cli specs = None"
      and v: "(case Volumes (Docker i) of
              None \<Rightarrow> Inr []
            | Some vs \<Rightarrow> volumeBinds cli (InstancePath cli (UUID i)) vs) = Inr binds"
      and im: "(Dockerfile (Docker i) \<noteq> None \<and> imageName = DockerImageName i)
           \<or> (Dockerfile (Docker i) = None \<and> Image (Docker i) = Some imageName)"
  shows "createIfAbsent cli i
           = (case ContainerCreate cli imageName (DockerContainerName i) specs binds of
                (containerID, None) \<Rightarrow> Inr containerID
              | (containerID, Some cerr) \<Rightarrow> Inl cerr)"
proof -
  have ps: "portSpecs (EnvVariables i) (EnvDefinitions i) ports = specs"
    unfolding s by (rule portSpecs_map_filter)
  obtain containerID cerr where cc:
    "ContainerCreate cli imageName (DockerContainerName i) specs binds = (containerID, cerr)"
    by (meson surj_pair)
  from im show ?thesis
  proof
    assume "Dockerfile (Docker i) \<noteq> None \<and> imageName = DockerImageName i"
    then show ?thesis
      using g p ps pp v cc
      by (cases cerr) (simp_all add: createIfAbsent_def createContainer_def)
  next
    assume "Dockerfile (Docker i) = None \<and> Image (Docker i) = Some imageName"
    then show ?thesis
      using g p ps pp v cc
      by (cases cerr) (simp_all add: createIfAbsent_def createContainer_def)
  qed
qed

text \<open>
  C5 as stated: the port \<open>80/tcp\<close> is paired with the port variable whose default is the
  container-side port \<open>80\<close>, and bound to the variable's value \<open>8080\<close>.  The code
  compares the default with the whole advertised string, finds no definition, and
  creates the container without any port binding.
\<close>

theorem portSpecs_proto_suffix_unbound:
  "portSpecs (EnvVariables nginxInstance) (EnvDefinitions nginxInstance) [''80/tcp''] = []
   \<and> createIfAbsent
        (idleDocker\<lparr>ContainerCreate :=
           (\<lambda>imageName containerName portBindings binds.
              if portBindings = [] then (''unbound'', None) else (''bound'', None))\<rparr>)
        nginxInstance = Inr ''unbound''"
  by (simp add: nginxInstance_def idleDocker_def createIfAbsent_def getID_def
      createContainer_def)

text \<open>
  C5, amended.  When the container is absent and the runner creates it, the port
  bindings handed to \<open>ContainerCreate\<close> are exactly these: for every advertised string
  \<open>out\<close> of \<open>methods.docker.ports\<close>, in order, the specification \<open>value:out\<close>, where
  \<open>value\<close> is the current value of the first env definition of type \<open>port\<close> whose
  default is \<open>out\<close> itself (the whole entry, any \<open>/proto\<close> suffix included); the
  container that a successful \<open>Start\<close> starts is the one created with these bindings.
  An advertised string without such a definition contributes no specification, and
  \<open>Start\<close> then behaves as if that string were not advertised at all.
\<close>

theorem create_binds_ports_by_advertised_string:
  "(getID cli i = Inl ErrContainerNotFound
      \<and> Ports (Docker i) = Some ports
      \<and> specs = List.map_filter
             (\<lambda>out. map_option (\<lambda>e. envValue (EnvVariables i) (env_Name e) @ '':'' @ out)
                       (find (\<lambda>e. env_Type e = ''port'' \<and> env_Default e = out)
                          (EnvDefinitions i)))
             ports
      \<and> ParsePortSpecs cli specs = None
      \<and> (case Volumes (Docker i) of
              None \<Rightarrow> Inr []
            | Some vs \<Rightarrow> volumeBinds cli (InstancePath cli (UUID i)) vs) = Inr binds
      \<and> ((Dockerfile (Docker i) \<noteq> None \<and> imageName = DockerImageName i)
           \<or> (Dockerfile (Docker i) = None \<and> Image (Docker i) = Some imageName))
    \<longrightarrow> createIfAbsent cli i
           = (case ContainerCreate cli imageName (DockerContainerName i) specs binds of
                (containerID, None) \<Rightarrow> Inr containerID
              | (containerID, Some cerr) \<Rightarrow> Inl cerr)
        \<and> (fst (Start cli i) = None
             \<longrightarrow> (\<exists>containerID.
                    ContainerCreate cli imageName (DockerContainerName i) specs binds
                      = (containerID, None)
                    \<and> ContainerStart cli containerID = None)))
   \<and> (find (\<lambda>e. env_Type e = ''port'' \<and> env_Default e = out) (EnvDefinitions i) = None
        \<and> Ports (Docker i) = Some (before @ out # after)
      \<longrightarrow> Start cli i = Start cli (i\<lparr>Docker := (Docker i)\<lparr>Ports := Some (before @ after)\<rparr>\<rparr>))"
proof (intro conjI impI)
  assume h: "getID cli i = Inl ErrContainerNotFound
      \<and> Ports (Docker i) = Some ports
      \<and> specs = List.map_filter
             (\<lambda>out. map_option (\<lambda>e. envValue (EnvVariables i) (env_Name e) @ '':'' @ out)
                       (find (\<lambda>e. env_Type e = ''port'' \<and> env_Default e = out)
                          (EnvDefinitions i)))
             ports
      \<and> ParsePortSpecs cli specs = None
      \<and> (case Volumes (Docker i) of
              None \<Rightarrow> Inr []
            | Some vs \<Rightarrow> volumeBinds cli (InstancePath cli (UUID i)) vs) = Inr binds
      \<and> ((Dockerfile (Docker i) \<noteq> None \<and> imageName = DockerImageName i)
           \<or> (Dockerfile (Docker i) = None \<and> Image (Docker i) = Some imageName))"
  then show c: "createIfAbsent cli i
           = (case ContainerCreate cli imageName (DockerContainerName i) specs binds of
                (containerID, None) \<Rightarrow> Inr containerID
              | (containerID, Some cerr) \<Rightarrow> Inl cerr)"
    by (intro createIfAbsent_creates [of cli i ports]) blast+
  assume ok: "fst (Start cli i) = None"
  show "\<exists>containerID.
                    ContainerCreate cli imageName (DockerContainerName i) specs binds
                      = (containerID, None)
                    \<and> ContainerStart cli containerID = None"
  proof (cases cli i rule: Start_cases)
    case (ok containerID msgs)
    then show ?thesis using c by (auto split: prod.splits option.splits)
  qed (use ok in simp_all)
next
  assume "find (\<lambda>e. env_Type e = ''port'' \<and> env_Default e = out) (EnvDefinitions i) = None
        \<and> Ports (Docker i) = Some (before @ out # after)"
  then show "Start cli i = Start cli (i\<lparr>Docker := (Docker i)\<lparr>Ports := Some (before @ after)\<rparr>\<rparr>)"
    using Start_skip by blast
qed

theorem create_binds_ports_by_advertised_string_witness:
  "getID strictDocker protoInstance = Inl ErrContainerNotFound
   \<and> Ports (Docker protoInstance) = Some [''80/tcp'', ''443/tcp'']
   \<and> [''8080:80/tcp'']
       = List.map_filter
           (\<lambda>out. map_option (\<lambda>e. envValue (EnvVariables protoInstance) (env_Name e) @ '':'' @ out)
                     (find (\<lambda>e. env_Type e = ''port'' \<and> env_Default e = out)
                        (EnvDefinitions protoInstance)))
           [''80/tcp'', ''443/tcp'']
   \<and> ParsePortSpecs strictDocker [''8080:80/tcp''] = None
   \<and> Dockerfile (Docker protoInstance) = None
   \<and> Image (Docker protoInstance) = Some ''nginx:latest''
   \<and> ContainerCreate strictDocker ''nginx:latest'' (DockerContainerName protoInstance)
        [''8080:80/tcp''] [] = (''c0ffee'', None)
   \<and> createIfAbsent strictDocker protoInstance = Inr ''c0ffee''
   \<and> fst (Start strictDocker protoInstance) = None
   \<and> ContainerStart strictDocker ''c0ffee'' = None
   \<and> find (\<lambda>e. env_Type e = ''port'' \<and> env_Default e = ''80/tcp'')
        (EnvDefinitions nginxInstance) = None
   \<and> Ports (Docker nginxInstance) = Some ([] @ ''80/tcp'' # [])
   \<and> Start idleDocker nginxInstance
       = Start idleDocker (nginxInstance\<lparr>Docker := (Docker nginxInstance)\<lparr>Ports := Some []\<rparr>\<rparr>)"
proof -
  let ?specs = "[''8080:80/tcp'']"
  have g: "getID strictDocker protoInstance = Inl ErrContainerNotFound"
    by (simp add: getID_def strictDocker_def idleDocker_def)
  have p: "Ports (Docker protoInstance) = Some [''80/tcp'', ''443/tcp'']"
    by (simp add: protoInstance_def)
  have s: "?specs = List.map_filter
           (\<lambda>out. map_option (\<lambda>e. envValue (EnvVariables protoInstance) (env_Name e) @ '':'' @ out)
                     (find (\<lambda>e. env_Type e = ''port'' \<and> env_Default e = out)
                        (EnvDefinitions protoInstance)))
           [''80/tcp'', ''443/tcp'']"
    by (simp add: protoInstance_def nginxInstance_def map_filter_simps envValue_def)
  have pp: "ParsePortSpecs strictDocker ?specs = None"
    by (simp add: strictDocker_def idleDocker_def)
  have v: "(case Volumes (Docker protoInstance) of
              None \<Rightarrow> Inr []
            | Some vs \<Rightarrow> volumeBinds strictDocker (InstancePath strictDocker (UUID protoInstance)) vs)
             = Inr []"
    by (simp add: protoInstance_def)
  have im: "Dockerfile (Docker protoInstance) = None"
    "Image (Docker protoInstance) = Some ''nginx:latest''"
    by (simp_all add: protoInstance_def)
  have cc: "ContainerCreate strictDocker ''nginx:latest'' (DockerContainerName protoInstance)
              ?specs [] = (''c0ffee'', None)"
    by (simp add: strictDocker_def idleDocker_def)
  have st: "ContainerStart strictDocker ''c0ffee'' = None"
    by (simp add: strictDocker_def idleDocker_def)
  note thm1 = create_binds_ports_by_advertised_string
                [of strictDocker protoInstance "[''80/tcp'', ''443/tcp'']" ?specs "[]"
                    "''nginx:latest''"]
  have c: "createIfAbsent strictDocker protoInstance = Inr ''c0ffee''"
    using thm1 g p s pp v im cc by simp
  have ok: "fst (Start strictDocker protoInstance) = None"
    using c st
    by (simp add: Start_def protoInstance_def nginxInstance_def buildImageFromName_def
        strictDocker_def idleDocker_def)
  have f: "find (\<lambda>e. env_Type e = ''port'' \<and> env_Default e = ''80/tcp'')
             (EnvDefinitions nginxInstance) = None"
    "Ports (Docker nginxInstance) = Some ([] @ ''80/tcp'' # [])"
    by (simp_all add: nginxInstance_def)
  have "Start idleDocker nginxInstance
       = Start idleDocker (nginxInstance\<lparr>Docker := (Docker nginxInstance)\<lparr>Ports := Some []\<rparr>\<rparr>)"
    using create_binds_ports_by_advertised_string
            [of idleDocker nginxInstance _ _ _ _ "''80/tcp''" "[]" "[]"] f
    by simp
  then show ?thesis
    using g p s pp im cc c ok st f by blast
qed

lemma findContainerID_absent:
  "containerAbsent wanted containers \<Longrightarrow> findContainerID wanted containers = Inr ''''"
  by (induction containers) (auto simp: containerAbsent_def split: list.splits)

lemma findContainerID_present:
  "containerAbsent wanted before \<Longrightarrow> Names c = wanted # rest
   \<Longrightarrow> findContainerID wanted (before @ c # after) = Inr (ID c)"
  by (induction before) (auto simp: containerAbsent_def split: list.splits)

lemma findContainerID_nameless:
  "containerAbsent wanted before \<Longrightarrow> Names c = []
   \<Longrightarrow> findContainerID wanted (before @ c # after) = Inl PanicIndexOutOfRange"
  by (induction before) (auto simp: containerAbsent_def split: list.splits)

text \<open>
  The loop of \<open>getID\<close> meets one of three situations: every listed container has a
  first name and none is the wanted one; or the first container that stops the loop
  has no name; or it has the wanted name as its first name.
\<close>

lemma containers_cases:
  "containerAbsent wanted containers
   \<or> (\<exists>before c after. containers = before @ c # after \<and> containerAbsent wanted before
        \<and> (Names c = [] \<or> (\<exists>rest. Names c = wanted # rest)))"
proof (induction containers)
  case Nil
  then show ?case by (simp add: containerAbsent_def)
next
  case (Cons c cs)
  show ?case
  proof (cases "Names c")
    case Nil
    then have "c # cs = [] @ c # cs \<and> containerAbsent wanted [] \<and> Names c = []"
      by (simp add: containerAbsent_def)
    then show ?thesis by blast
  next
    case (Cons name rest)
    show ?thesis
    proof (cases "name = wanted")
      case True
      then have "c # cs = [] @ c # cs \<and> containerAbsent wanted [] \<and> Names c = wanted # rest"
        using Cons by (simp add: containerAbsent_def)
      then show ?thesis by blast
    next
      case False
      then have one: "containerAbsent wanted [c]"
        using Cons by (simp add: containerAbsent_def)
      from Cons.IH show ?thesis
      proof
        assume "containerAbsent wanted cs"
        then show ?thesis using one by (simp add: containerAbsent_def)
      next
        assume "\<exists>before c' after. cs = before @ c' # after \<and> containerAbsent wanted before
                  \<and> (Names c' = [] \<or> (\<exists>rest. Names c' = wanted # rest))"
        then obtain before c' after where h: "cs = before @ c' # after"
          "containerAbsent wanted before"
          "Names c' = [] \<or> (\<exists>rest. Names c' = wanted # rest)"
          by blast
        have "c # cs = (c # before) @ c' # after \<and> containerAbsent wanted (c # before)"
          using h one by (simp add: containerAbsent_def)
        then show ?thesis using h(3) by blast
      qed
    qed
  qed
qed

text \<open>
  C6 as stated: \<open>Delete\<close> returns no error when the named container is absent.  On a
  daemon that holds no container, \<open>getID\<close> answers \<open>ErrContainerNotFound\<close> and \<open>Delete\<close>
  returns that error.
\<close>

theorem Delete_absent_returns_error:
  "ContainerList idleDocker = Inr []
   \<and> Delete idleDocker nginxInstance = Some ErrContainerNotFound"
  by (simp add: idleDocker_def Delete_def getID_def)

text \<open>
  C6, amended.  \<open>Delete\<close> does not succeed on an absent container.  It reads the
  container list and looks at the first name (\<open>Names[0]\<close>) of each container, in order:
  when the listing fails it returns that error; when every listed container has a
  first name and none of these is \<open>/VERTEX_CONTAINER_<uuid>\<close>, it returns
  \<open>ErrContainerNotFound\<close>; when the first container at which the search stops has that
  first name, it returns what \<open>ContainerRemove\<close> returns for the container's id, or
  \<open>ErrContainerNotFound\<close> if that id is empty; and when that container has no name at
  all, the index \<open>Names[0]\<close> is out of range and \<open>Delete\<close> panics.
\<close>

theorem Delete_by_first_name:
  "(ContainerList cli = Inl lerr \<longrightarrow> Delete cli instance = Some lerr)
   \<and> (ContainerList cli = Inr containers
        \<and> containerAbsent (''/'' @ DockerContainerName instance) containers
      \<longrightarrow> Delete cli instance = Some ErrContainerNotFound)
   \<and> (ContainerList cli = Inr (before @ c # after)
        \<and> containerAbsent (''/'' @ DockerContainerName instance) before
        \<and> Names c = (''/'' @ DockerContainerName instance) # rest
      \<longrightarrow> Delete cli instance
            = (if ID c = '''' then Some ErrContainerNotFound else ContainerRemove cli (ID c)))
   \<and> (ContainerList cli = Inr (before @ c # after)
        \<and> containerAbsent (''/'' @ DockerContainerName instance) before
        \<and> Names c = []
      \<longrightarrow> Delete cli instance = Some PanicIndexOutOfRange)"
  by (auto simp: Delete_def getID_def findContainerID_absent findContainerID_present
      findContainerID_nameless)

theorem Delete_by_first_name_witness:
  "ContainerList listFailsDocker = Inl (Err ''Cannot connect to the Docker daemon'')
   \<and> Delete listFailsDocker nginxInstance = Some (Err ''Cannot connect to the Docker daemon'')
   \<and> ContainerList aliasDocker
       = Inr [\<lparr>Names = [''/proxy'', ''/VERTEX_CONTAINER_7d444840-9dc0-11d1-b245-5ffdce74fad2''],
                ID = ''0a1b''\<rparr>]
   \<and> containerAbsent (''/'' @ DockerContainerName nginxInstance)
        [\<lparr>Names = [''/proxy'', ''/VERTEX_CONTAINER_7d444840-9dc0-11d1-b245-5ffdce74fad2''],
          ID = ''0a1b''\<rparr>]
   \<and> Delete aliasDocker nginxInstance = Some ErrContainerNotFound
   \<and> ContainerList busyDocker
       = Inr ([\<lparr>Names = [''/other''], ID = ''0a1b''\<rparr>]
              @ \<lparr>Names = [''/VERTEX_CONTAINER_7d444840-9dc0-11d1-b245-5ffdce74fad2''],
                 ID = ''beef''\<rparr> # [])
   \<and> containerAbsent (''/'' @ DockerContainerName nginxInstance)
        [\<lparr>Names = [''/other''], ID = ''0a1b''\<rparr>]
   \<and> Delete busyDocker nginxInstance = Some (Err ''removal in progress'')
   \<and> ContainerList namelessDocker = Inr ([] @ \<lparr>Names = [], ID = ''dead''\<rparr> # [])
   \<and> Delete namelessDocker nginxInstance = Some PanicIndexOutOfRange"
proof -
  let ?w = "''/'' @ DockerContainerName nginxInstance"
  let ?linked = "\<lparr>Names = [''/proxy'', ''/VERTEX_CONTAINER_7d444840-9dc0-11d1-b245-5ffdce74fad2''],
                 ID = ''0a1b''\<rparr>"
  let ?other = "\<lparr>Names = [''/other''], ID = ''0a1b''\<rparr>"
  let ?mine = "\<lparr>Names = [''/VERTEX_CONTAINER_7d444840-9dc0-11d1-b245-5ffdce74fad2''],
                ID = ''beef''\<rparr>"
  let ?nameless = "\<lparr>Names = [], ID = ''dead''\<rparr>"
  have name: "?w = ''/VERTEX_CONTAINER_7d444840-9dc0-11d1-b245-5ffdce74fad2''"
    by (simp add: DockerContainerName_def nginxInstance_def)
  have l: "ContainerList listFailsDocker = Inl (Err ''Cannot connect to the Docker daemon'')"
    by (simp add: listFailsDocker_def idleDocker_def)
  have a: "ContainerList aliasDocker = Inr [?linked]"
    by (simp add: aliasDocker_def idleDocker_def)
  have a': "containerAbsent ?w [?linked]"
    by (simp add: containerAbsent_def DockerContainerName_def nginxInstance_def)
  have b: "ContainerList busyDocker = Inr ([?other] @ ?mine # [])"
    by (simp add: busyDocker_def idleDocker_def)
  have b': "containerAbsent ?w [?other]"
    by (simp add: containerAbsent_def DockerContainerName_def nginxInstance_def)
  have b'': "Names ?mine = ?w # []" "ID ?mine = ''beef''"
    by (simp_all add: DockerContainerName_def nginxInstance_def)
  have n: "ContainerList namelessDocker = Inr ([] @ ?nameless # [])"
    by (simp add: namelessDocker_def idleDocker_def)
  have n': "containerAbsent ?w []" "Names ?nameless = []"
    by (simp_all add: containerAbsent_def)
  have "Delete listFailsDocker nginxInstance = Some (Err ''Cannot connect to the Docker daemon'')"
    using Delete_by_first_name [of listFailsDocker _ nginxInstance] l by blast
  moreover have "Delete aliasDocker nginxInstance = Some ErrContainerNotFound"
    using Delete_by_first_name [of aliasDocker _ nginxInstance "[?linked]"] a a' by blast
  moreover have "Delete busyDocker nginxInstance
                   = (if ID ?mine = '''' then Some ErrContainerNotFound
                      else ContainerRemove busyDocker (ID ?mine))"
    using Delete_by_first_name [of busyDocker _ nginxInstance _ "[?other]" ?mine "[]" "[]"]
      b b' b''(1) by blast
  then have "Delete busyDocker nginxInstance = Some (Err ''removal in progress'')"
    by (simp add: busyDocker_def idleDocker_def)
  moreover have "Delete namelessDocker nginxInstance = Some PanicIndexOutOfRange"
    using Delete_by_first_name [of namelessDocker _ nginxInstance _ "[]" ?nameless "[]"]
      n n' by blast
  ultimately show ?thesis
    using l a a' b b' n by blast
qed

subsection \<open>Service update\<close>

text \<open>
  C8. For every container \<open>c\<close> and every service document \<open>s\<close> whose version is greater
  than \<open>MaxSupportedVersion\<close>, \<open>Update(c, s)\<close> returns no error and leaves the container,
  and with it \<open>c.Service\<close>, as it was; the adapter's \<open>Save\<close> is not called, so the
  storage is unchanged too.
\<close>

theorem Update_unsupported_version_noop:
  assumes "svc_Version s > MaxSupportedVersion"
  shows "Update MaxSupportedVersion adapter_Save c s fs = (None, c, fs)"
  using assms by (simp add: Update_def)

theorem Update_unsupported_version_noop_witness:
  "svc_Version \<lparr>svc_ID = ''redis'', svc_Name = ''Redis'', svc_Version = 3\<rparr> > 2
   \<and> Update 2 (\<lambda>u s fs. (Some (Err ''disk full''), s # fs))
        \<lparr>ct_UUID = ''u1'', ct_Service = \<lparr>svc_ID = ''redis'', svc_Name = ''Redis'', svc_Version = 1\<rparr>,
         ct_UpdateAvailable = True\<rparr>
        \<lparr>svc_ID = ''redis'', svc_Name = ''Redis'', svc_Version = 3\<rparr> []
     = (None,
        \<lparr>ct_UUID = ''u1'', ct_Service = \<lparr>svc_ID = ''redis'', svc_Name = ''Redis'', svc_Version = 1\<rparr>,
         ct_UpdateAvailable = True\<rparr>, [])"
  using Update_unsupported_version_noop
    [of 2 "\<lparr>svc_ID = ''redis'', svc_Name = ''Redis'', svc_Version = 3\<rparr>"
        "\<lambda>u s fs. (Some (Err ''disk full''), s # fs)"
        "\<lparr>ct_UUID = ''u1'', ct_Service = \<lparr>svc_ID = ''redis'', svc_Name = ''Redis'', svc_Version = 1\<rparr>,
          ct_UpdateAvailable = True\<rparr>" "[]"]
  by simp

subsection \<open>Instance settings\<close>

text \<open>
  C10. When the settings that the adapter returns for a container carry an empty display
  name (the defaults of a missing file included), \<open>Load\<close> returns no error and stores
  on the in-memory container those settings with the display name replaced by the name
  of the service manifest; so the loaded display name is not empty when the manifest
  has a name.
\<close>

theorem settings_Load_fills_display_name:
  assumes "adapter_Load (si_UUID inst) = Inr settings"
      and "DisplayName settings = ''''"
  shows "settings_Load adapter_Load inst
           = (None, inst\<lparr>si_InstanceSettings :=
                            settings\<lparr>DisplayName := svc_Name (si_Service inst)\<rparr>\<rparr>)
         \<and> (svc_Name (si_Service inst) \<noteq> '''' \<longrightarrow>
              DisplayName (si_InstanceSettings (snd (settings_Load adapter_Load inst))) \<noteq> '''')"
  using assms by (simp add: settings_Load_def)

theorem settings_Load_fills_display_name_witness:
  "(\<lambda>u. Inr \<lparr>DisplayName = [], LaunchOnStartup = None, Version = None, Tags = []\<rparr>) ''u1''
     = (Inr \<lparr>DisplayName = [], LaunchOnStartup = None, Version = None, Tags = []\<rparr>
          :: error + InstanceSettings)
   \<and> DisplayName \<lparr>DisplayName = [], LaunchOnStartup = None, Version = None, Tags = []\<rparr> = ''''
   \<and> svc_Name \<lparr>svc_ID = ''redis'', svc_Name = ''Redis'', svc_Version = 1\<rparr> \<noteq> ''''
   \<and> DisplayName (si_InstanceSettings (snd (settings_Load
          (\<lambda>u. Inr \<lparr>DisplayName = [], LaunchOnStartup = None, Version = None, Tags = []\<rparr>)
          \<lparr>si_UUID = ''u1'',
           si_Service = \<lparr>svc_ID = ''redis'', svc_Name = ''Redis'', svc_Version = 1\<rparr>,
           si_InstanceSettings =
             \<lparr>DisplayName = ''old'', LaunchOnStartup = None, Version = None, Tags = []\<rparr>\<rparr>)))
       = ''Redis''"
  using settings_Load_fills_display_name
    [of "\<lambda>u. Inr \<lparr>DisplayName = [], LaunchOnStartup = None, Version = None, Tags = []\<rparr>"
        "\<lparr>si_UUID = ''u1'',
          si_Service = \<lparr>svc_ID = ''redis'', svc_Name = ''Redis'', svc_Version = 1\<rparr>,
          si_InstanceSettings =
            \<lparr>DisplayName = ''old'', LaunchOnStartup = None, Version = None, Tags = []\<rparr>\<rparr>"
        "\<lparr>DisplayName = [], LaunchOnStartup = None, Version = None, Tags = []\<rparr>"]
  by simp

subsection \<open>Instance repository\<close>

text \<open>
  C9. For every UUID already present in the repository, \<open>Set\<close> returns the
  already-exists error and leaves the repository (catalog and listeners) as it was; and
  every \<open>Set\<close> and every \<open>Delete\<close> that returns no error has sent one more change event
  to each listener of the repository.
\<close>

theorem Set_rejects_duplicate_changes_are_published:
  "(Exists r u \<longrightarrow> repo_Set u instance r = (Some (ErrAlreadyExists u), r))
   \<and> (\<forall>r'. repo_Set u instance r = (None, r') \<longrightarrow>
         (\<forall>l sent. listeners r l = Some sent
                    \<longrightarrow> listeners r' l = Some (sent @ [InstanceEvent EventChange])))
   \<and> (\<forall>r'. repo_Delete d u r = (None, r') \<longrightarrow>
         (\<forall>l sent. listeners r l = Some sent
                    \<longrightarrow> listeners r' l = Some (sent @ [InstanceEvent EventChange])))"
  by (auto simp: repo_Set_def repo_Delete_def notifyListeners_def
      split: if_splits option.splits)

theorem Set_rejects_duplicate_changes_are_published_witness:
  "Exists redisRepo redisUUID
   \<and> repo_Set redisUUID redisInstance redisRepo = (Some (ErrAlreadyExists redisUUID), redisRepo)
   \<and> fst (repo_Set ''00000000-0000-0000-0000-000000000000'' redisInstance redisRepo) = None
   \<and> listeners redisRepo ''listener-1'' = Some []
   \<and> listeners (snd (repo_Set ''00000000-0000-0000-0000-000000000000'' redisInstance redisRepo))
        ''listener-1'' = Some [InstanceEvent EventChange]
   \<and> fst (repo_Delete emptyDisk redisUUID redisRepo) = None
   \<and> listeners (snd (repo_Delete emptyDisk redisUUID redisRepo)) ''listener-1''
       = Some [InstanceEvent EventChange]"
proof -
  let ?new = "''00000000-0000-0000-0000-000000000000''"
  have ex: "Exists redisRepo redisUUID"
    by (simp add: Exists_def redisRepo_def)
  have l: "listeners redisRepo ''listener-1'' = Some []"
    by (simp add: redisRepo_def)
  have set: "repo_Set ?new redisInstance redisRepo
               = (None, snd (repo_Set ?new redisInstance redisRepo))"
    by (simp add: repo_Set_def Exists_def redisRepo_def redisUUID_def)
  have del: "repo_Delete emptyDisk redisUUID redisRepo
               = (None, snd (repo_Delete emptyDisk redisUUID redisRepo))"
    by (simp add: repo_Delete_def emptyDisk_def)
  note thm1 = Set_rejects_duplicate_changes_are_published
                [of redisRepo redisUUID redisInstance emptyDisk]
  note thm2 = Set_rejects_duplicate_changes_are_published
                [of redisRepo ?new redisInstance emptyDisk]
  have "repo_Set redisUUID redisInstance redisRepo = (Some (ErrAlreadyExists redisUUID), redisRepo)"
    using thm1 ex by blast
  moreover have "listeners (snd (repo_Set ?new redisInstance redisRepo)) ''listener-1''
                   = Some ([] @ [InstanceEvent EventChange])"
    using thm2 set l by blast
  moreover have "listeners (snd (repo_Delete emptyDisk redisUUID redisRepo)) ''listener-1''
                   = Some ([] @ [InstanceEvent EventChange])"
    using thm1 del l by blast
  ultimately show ?thesis
    using ex l set del by (simp del: append_Nil) (metis fst_conv append_Nil)
qed

lemma scanEntries_append:
  "scanEntries d (xs @ ys) r
     = (case scanEntries d xs r of Fatal ferr \<Rightarrow> Fatal ferr | Done r1 \<Rightarrow> scanEntries d ys r1)"
  by (induction xs arbitrary: r) (auto split: sum.splits prod.splits)

lemma Load_loaded:
  "Load d u r = (Inr i, r2) \<Longrightarrow> instances r2 u = Some i"
  by (auto simp: Load_def Let_def repo_Set_def notifyListeners_def
      split: sum.splits option.splits prod.splits if_splits)

lemma Load_keeps:
  "Load d u r = (Inr i, r2) \<Longrightarrow> instances r v \<noteq> None \<Longrightarrow> instances r2 v \<noteq> None"
  by (auto simp: Load_def Let_def repo_Set_def notifyListeners_def
      split: sum.splits option.splits prod.splits if_splits)

lemma scanEntries_keeps:
  "scanEntries d es r = Done r' \<Longrightarrow> instances r v \<noteq> None \<Longrightarrow> instances r' v \<noteq> None"
proof (induction es arbitrary: r)
  case Nil
  then show ?case by simp
next
  case (Cons e es)
  then show ?case
    by (auto split: sum.splits prod.splits if_splits dest: Load_keeps)
qed

lemma scanEntries_done_loaded:
  "scanEntries d es r = Done r' \<Longrightarrow> entry \<in> set es
   \<Longrightarrow> \<exists>symlink. de_Info entry = Inr symlink
         \<and> (de_IsDir entry \<or> symlink
              \<longrightarrow> (\<exists>u. UUIDParse d (de_Name entry) = Inr u \<and> instances r' u \<noteq> None))"
proof (induction es arbitrary: r)
  case Nil
  then show ?case by simp
next
  case (Cons e es)
  show ?case
  proof (cases "entry = e")
    case True
    from Cons.prems(1) show ?thesis unfolding True
      by (auto split: sum.splits prod.splits if_splits
          dest!: Load_loaded dest: scanEntries_keeps)
  next
    case False
    then have "entry \<in> set es" using Cons.prems(2) by simp
    moreover from Cons.prems(1) obtain r1 where "scanEntries d es r1 = Done r'"
      by (auto split: sum.splits prod.splits if_splits)
    ultimately show ?thesis using Cons.IH by blast
  qed
qed

text \<open>
  C3 as stated: an entry whose name is no UUID, or whose load fails, is skipped and the
  scan goes on.  With a readable instances directory, the scan ends the process at a
  directory named \<open>0-backup\<close>, and at a directory named by a UUID that has no manifest;
  the Redis instance listed behind it is not loaded.
\<close>

theorem reload_exits_on_entry_failure:
  "ReadDir badNameDisk = Inr [backupEntry, redisEntry]
   \<and> de_Name backupEntry = ''0-backup''
   \<and> reload badNameDisk emptyRepo = Fatal (Err ''invalid UUID length'')
   \<and> ReadDir noManifestDisk = Inr [zeroEntry, redisEntry]
   \<and> de_Name zeroEntry = ''00000000-0000-0000-0000-000000000000''
   \<and> reload noManifestDisk emptyRepo = Fatal (Err ''unexpected end of JSON input'')"
  by (simp add: reload_def badNameDisk_def noManifestDisk_def emptyDisk_def Load_def
      ReadService_def ReadFile_def redisFiles_def backupEntry_def zeroEntry_def)

text \<open>
  C3, amended.  The startup scan ends the process (\<open>log.Fatal\<close>) when the instances
  directory cannot be read.  Otherwise it handles the entries in the listed order, and
  at each entry it reaches: it ends the process when the entry's \<open>Info\<close> fails; when
  the entry is a directory or a symlink, it ends the process if the name does not
  parse as a UUID or if \<open>Load\<close> on the repository built so far fails (a failure on the
  disk, or the rejection by \<open>Set\<close> of a UUID loaded before), and otherwise the instance
  is in the repository and the scan goes on behind the entry; an entry that is
  neither a directory nor a symlink is skipped.  The entries behind the one that ends
  the process are not handled, and when the scan returns, every listed directory and
  symlink has its instance in the repository.
\<close>

theorem reload_outcome_at_each_entry:
  "(ReadDir d = Inl err \<longrightarrow> reload d r = Fatal err)
   \<and> (ReadDir d = Inr (before @ entry # after) \<longrightarrow>
        (scanEntries d before r = Fatal ferr \<longrightarrow> reload d r = Fatal ferr)
      \<and> (scanEntries d before r = Done r1 \<longrightarrow>
           (de_Info entry = Inl ierr \<longrightarrow> reload d r = Fatal ierr)
         \<and> (de_Info entry = Inr symlink \<and> (de_IsDir entry \<or> symlink) \<longrightarrow>
              (UUIDParse d (de_Name entry) = Inl perr \<longrightarrow> reload d r = Fatal perr)
            \<and> (UUIDParse d (de_Name entry) = Inr u \<longrightarrow>
                 (Load d u r1 = (Inl lerr, r2) \<longrightarrow> reload d r = Fatal lerr)
               \<and> (Load d u r1 = (Inr i, r2) \<longrightarrow>
                    instances r2 u = Some i \<and> reload d r = scanEntries d after r2)))
         \<and> (de_Info entry = Inr False \<and> \<not> de_IsDir entry \<longrightarrow>
              reload d r = scanEntries d after r1)))
   \<and> (ReadDir d = Inr entries \<and> reload d r = Done r' \<and> listed \<in> set entries \<longrightarrow>
        (\<exists>link. de_Info listed = Inr link
           \<and> (de_IsDir listed \<or> link \<longrightarrow>
                (\<exists>v. UUIDParse d (de_Name listed) = Inr v \<and> instances r' v \<noteq> None))))"
proof (intro conjI impI)
  assume "ReadDir d = Inr entries \<and> reload d r = Done r' \<and> listed \<in> set entries"
  then have "scanEntries d entries r = Done r'" "listed \<in> set entries"
    by (auto simp: reload_def)
  then show "\<exists>link. de_Info listed = Inr link
           \<and> (de_IsDir listed \<or> link \<longrightarrow>
                (\<exists>v. UUIDParse d (de_Name listed) = Inr v \<and> instances r' v \<noteq> None))"
    by (rule scanEntries_done_loaded)
qed (auto simp: reload_def scanEntries_append dest: Load_loaded)

lemmas disk_eval = emptyDisk_def Load_def ReadService_def ReadFile_def redisFiles_def
  LoadMetadata_def GetPath_def repo_Set_def Exists_def notifyListeners_def emptyRepo_def
  redisUUID_def redisEntry_def

theorem reload_outcome_at_each_entry_witness:
  "ReadDir unreadableDisk = Inl (Err ''open live/instances: no such file or directory'')
   \<and> reload unreadableDisk emptyRepo
       = Fatal (Err ''open live/instances: no such file or directory'')
   \<and> ReadDir badNameDisk = Inr ([] @ backupEntry # [redisEntry])
   \<and> UUIDParse badNameDisk (de_Name backupEntry) = Inl (Err ''invalid UUID length'')
   \<and> reload badNameDisk emptyRepo = Fatal (Err ''invalid UUID length'')
   \<and> ReadDir staleDisk = Inr ([] @ staleEntry # [redisEntry])
   \<and> reload staleDisk emptyRepo = Fatal (Err ''lstat .stale: no such file or directory'')
   \<and> ReadDir noManifestDisk = Inr ([] @ zeroEntry # [redisEntry])
   \<and> fst (Load noManifestDisk ''00000000-0000-0000-0000-000000000000'' emptyRepo)
       = Inl (Err ''unexpected end of JSON input'')
   \<and> reload noManifestDisk emptyRepo = Fatal (Err ''unexpected end of JSON input'')
   \<and> ReadDir twinDisk = Inr ([redisEntry] @ bracedEntry # [])
   \<and> scanEntries twinDisk [redisEntry] emptyRepo
       = Done (snd (Load twinDisk redisUUID emptyRepo))
   \<and> UUIDParse twinDisk (de_Name bracedEntry) = Inr redisUUID
   \<and> fst (Load twinDisk redisUUID (snd (Load twinDisk redisUUID emptyRepo)))
       = Inl (ErrAlreadyExists redisUUID)
   \<and> reload twinDisk emptyRepo = Fatal (ErrAlreadyExists redisUUID)
   \<and> ReadDir keepDisk = Inr ([] @ keepEntry # [redisEntry])
   \<and> reload keepDisk emptyRepo = scanEntries keepDisk [redisEntry] emptyRepo
   \<and> reload keepDisk emptyRepo = Done (snd (Load keepDisk redisUUID emptyRepo))
   \<and> instances (snd (Load keepDisk redisUUID emptyRepo)) redisUUID \<noteq> None
   \<and> redisEntry \<in> set [keepEntry, redisEntry]
   \<and> (\<exists>v. UUIDParse keepDisk (de_Name redisEntry) = Inr v
            \<and> instances (snd (Load keepDisk redisUUID emptyRepo)) v \<noteq> None)
   \<and> ReadDir badNameDisk = Inr ([backupEntry] @ redisEntry # [])
   \<and> scanEntries badNameDisk [backupEntry] emptyRepo = Fatal (Err ''invalid UUID length'')"
proof -
  let ?zero = "''00000000-0000-0000-0000-000000000000''"
  have a: "ReadDir unreadableDisk = Inl (Err ''open live/instances: no such file or directory'')"
    by (simp add: unreadableDisk_def emptyDisk_def)
  have b: "ReadDir badNameDisk = Inr ([] @ backupEntry # [redisEntry])"
    "UUIDParse badNameDisk (de_Name backupEntry) = Inl (Err ''invalid UUID length'')"
    "de_Info backupEntry = Inr False \<and> (de_IsDir backupEntry \<or> False)"
    by (simp_all add: badNameDisk_def emptyDisk_def backupEntry_def)
  have s: "ReadDir staleDisk = Inr ([] @ staleEntry # [redisEntry])"
    "de_Info staleEntry = Inl (Err ''lstat .stale: no such file or directory'')"
    by (simp_all add: staleDisk_def emptyDisk_def staleEntry_def)
  have n: "ReadDir noManifestDisk = Inr ([] @ zeroEntry # [redisEntry])"
    "UUIDParse noManifestDisk (de_Name zeroEntry) = Inr ?zero"
    "de_Info zeroEntry = Inr False \<and> (de_IsDir zeroEntry \<or> False)"
    by (simp_all add: noManifestDisk_def emptyDisk_def zeroEntry_def)
  have n': "Load noManifestDisk ?zero emptyRepo
              = (Inl (Err ''unexpected end of JSON input''), emptyRepo)"
    by (simp add: noManifestDisk_def disk_eval)
  have t: "ReadDir twinDisk = Inr ([redisEntry] @ bracedEntry # [])"
    "UUIDParse twinDisk (de_Name bracedEntry) = Inr redisUUID"
    "de_Info bracedEntry = Inr True \<and> (de_IsDir bracedEntry \<or> True)"
    by (simp_all add: twinDisk_def emptyDisk_def bracedEntry_def redisUUID_def)
  have t1: "scanEntries twinDisk [redisEntry] emptyRepo
              = Done (snd (Load twinDisk redisUUID emptyRepo))"
    by (simp add: twinDisk_def disk_eval)
  have t2: "Load twinDisk redisUUID (snd (Load twinDisk redisUUID emptyRepo))
              = (Inl (ErrAlreadyExists redisUUID), snd (Load twinDisk redisUUID emptyRepo))"
    by (simp add: twinDisk_def disk_eval)
  have k: "ReadDir keepDisk = Inr ([] @ keepEntry # [redisEntry])"
    "de_Info keepEntry = Inr False \<and> \<not> de_IsDir keepEntry"
    by (simp_all add: keepDisk_def emptyDisk_def keepEntry_def)
  have k1: "ReadDir keepDisk = Inr ([keepEntry] @ redisEntry # [])"
    "scanEntries keepDisk [keepEntry] emptyRepo = Done emptyRepo"
    "UUIDParse keepDisk (de_Name redisEntry) = Inr redisUUID"
    "de_Info redisEntry = Inr False \<and> (de_IsDir redisEntry \<or> False)"
    by (simp_all add: keepDisk_def emptyDisk_def keepEntry_def redisEntry_def redisUUID_def)
  have k2: "Load keepDisk redisUUID emptyRepo
              = (Inr (the (instances (snd (Load keepDisk redisUUID emptyRepo)) redisUUID)),
                 snd (Load keepDisk redisUUID emptyRepo))"
    by (simp add: keepDisk_def disk_eval)
  have e: "scanEntries d [] emptyRepo = Done emptyRepo" for d
    by simp
  note main = reload_outcome_at_each_entry
  have 1: "reload unreadableDisk emptyRepo
          = Fatal (Err ''open live/instances: no such file or directory'')"
    using main [of unreadableDisk _ emptyRepo] a by blast
  have 2: "reload badNameDisk emptyRepo = Fatal (Err ''invalid UUID length'')"
    using main [of badNameDisk _ emptyRepo "[]" backupEntry "[redisEntry]" _ emptyRepo _ False]
      b e by blast
  have 3: "reload staleDisk emptyRepo = Fatal (Err ''lstat .stale: no such file or directory'')"
    using main [of staleDisk _ emptyRepo "[]" staleEntry "[redisEntry]" _ emptyRepo] s e by blast
  have 4: "reload noManifestDisk emptyRepo = Fatal (Err ''unexpected end of JSON input'')"
    using main [of noManifestDisk _ emptyRepo "[]" zeroEntry "[redisEntry]" _ emptyRepo _ False
                  _ ?zero "Err ''unexpected end of JSON input''" emptyRepo] n n' e
    by blast
  have 5: "reload twinDisk emptyRepo = Fatal (ErrAlreadyExists redisUUID)"
    using main [of twinDisk _ emptyRepo "[redisEntry]" bracedEntry "[]" _
                  "snd (Load twinDisk redisUUID emptyRepo)" _ True _ redisUUID
                  "ErrAlreadyExists redisUUID" "snd (Load twinDisk redisUUID emptyRepo)"]
      t t1 t2 by blast
  have 6: "reload keepDisk emptyRepo = scanEntries keepDisk [redisEntry] emptyRepo"
    using main [of keepDisk _ emptyRepo "[]" keepEntry "[redisEntry]" _ emptyRepo] k e by blast
  have 7: "instances (snd (Load keepDisk redisUUID emptyRepo)) redisUUID
             = Some (the (instances (snd (Load keepDisk redisUUID emptyRepo)) redisUUID))
           \<and> reload keepDisk emptyRepo
               = scanEntries keepDisk [] (snd (Load keepDisk redisUUID emptyRepo))"
    using main [of keepDisk _ emptyRepo "[keepEntry]" redisEntry "[]" _ emptyRepo _ False _
                  redisUUID _ "snd (Load keepDisk redisUUID emptyRepo)"
                  "the (instances (snd (Load keepDisk redisUUID emptyRepo)) redisUUID)"]
      k1 k2 by blast
  have 8: "fst (Load noManifestDisk ?zero emptyRepo) = Inl (Err ''unexpected end of JSON input'')"
    using n' by simp
  have 9: "fst (Load twinDisk redisUUID (snd (Load twinDisk redisUUID emptyRepo)))
             = Inl (ErrAlreadyExists redisUUID)"
    using t2 by simp
  have 10: "reload keepDisk emptyRepo = Done (snd (Load keepDisk redisUUID emptyRepo))"
    using 7 by simp
  have 11: "instances (snd (Load keepDisk redisUUID emptyRepo)) redisUUID \<noteq> None"
    using 7 by (metis option.distinct(1))
  have 12: "redisEntry \<in> set [keepEntry, redisEntry]"
    by simp
  have k3: "ReadDir keepDisk = Inr [keepEntry, redisEntry]"
    using k(1) by simp
  have 13: "\<exists>v. UUIDParse keepDisk (de_Name redisEntry) = Inr v
                \<and> instances (snd (Load keepDisk redisUUID emptyRepo)) v \<noteq> None"
    using main [of keepDisk _ emptyRepo _ _ _ _ _ _ _ _ _ _ _ _ "[keepEntry, redisEntry]"
                   "snd (Load keepDisk redisUUID emptyRepo)" redisEntry]
      k3 10 12 k1(4)
    by (metis sum.inject(2))
  have 14: "ReadDir badNameDisk = Inr ([backupEntry] @ redisEntry # [])"
    "scanEntries badNameDisk [backupEntry] emptyRepo = Fatal (Err ''invalid UUID length'')"
    by (simp_all add: badNameDisk_def emptyDisk_def backupEntry_def)
  have "reload badNameDisk emptyRepo = Fatal (Err ''invalid UUID length'')"
    using main [of badNameDisk _ emptyRepo "[backupEntry]" redisEntry "[]"
                   "Err ''invalid UUID length''"] 14
    by blast
  then show ?thesis
    using a b(1,2) s(1) n(1) t(1,2) t1 k(1) 1 3 4 5 6 8 9 10 11 12 13 14 by blast
qed

subsection \<open>The .env file\<close>

lemma rawLines_line:
  "newline \<notin> set l \<Longrightarrow> rawLines (l @ newline # rest) = l # rawLines rest"
  by (induction l) auto

lemma rawLines_envLines:
  "\<forall>kv \<in> set kvs. newline \<notin> set (fst kv) \<and> newline \<notin> set (snd kv)
   \<Longrightarrow> rawLines (concat (map envLine kvs)) = map (\<lambda>kv. fst kv @ ''='' @ snd kv) kvs"
proof (induction kvs)
  case Nil
  then show ?case by simp
next
  case (Cons kv kvs)
  have nl: "newline \<notin> set (fst kv @ ''='' @ snd kv)"
    using Cons.prems by (simp add: newline_def)
  have step: "concat (map envLine (kv # kvs))
                = (fst kv @ ''='' @ snd kv) @ newline # concat (map envLine kvs)"
    by (simp add: envLine_def)
  have "rawLines (concat (map envLine (kv # kvs)))
          = (fst kv @ ''='' @ snd kv) # rawLines (concat (map envLine kvs))"
    unfolding step using nl by (rule rawLines_line)
  also have "rawLines (concat (map envLine kvs)) = map (\<lambda>kv. fst kv @ ''='' @ snd kv) kvs"
    using Cons.IH Cons.prems by simp
  finally show ?case by simp
qed

lemma splitOn_none: "sep \<notin> set v \<Longrightarrow> splitOn sep v = [v]"
  by (induction v) auto

lemma splitOn_first:
  "sep \<notin> set k \<Longrightarrow> splitOn sep (k @ sep # rest) = k # splitOn sep rest"
  by (induction k) auto

lemma splitOn_envLine:
  "CHR ''='' \<notin> set k \<Longrightarrow> CHR ''='' \<notin> set v \<Longrightarrow> splitOn (CHR ''='') (k @ CHR ''='' # v) = [k, v]"
  by (simp add: splitOn_first splitOn_none)

lemma dropCR_envLine:
  "v = [] \<or> last v \<noteq> carriageReturn \<Longrightarrow> dropCR (k @ CHR ''='' # v) = k @ CHR ''='' # v"
  by (auto simp: dropCR_def carriageReturn_def)

lemma loadLines_envLines:
  "\<forall>kv \<in> set kvs. CHR ''='' \<notin> set (fst kv) \<and> CHR ''='' \<notin> set (snd kv) \<and> entries (fst kv) = Some (snd kv)
   \<Longrightarrow> loadLines (map (\<lambda>kv. fst kv @ ''='' @ snd kv) kvs) entries = (None, entries)"
proof (induction kvs)
  case Nil
  then show ?case by simp
next
  case (Cons kv kvs)
  have "entries(fst kv \<mapsto> snd kv) = entries" using Cons.prems by (auto simp: fun_eq_iff)
  then show ?case using Cons by (simp add: splitOn_envLine)
qed

text \<open>
  When the previous content of the file is not longer than the bytes written (a new
  file in particular), nothing of it is left and loading gives back the saved map.
\<close>

lemma SaveEnv_LoadEnv_roundtrip:
  assumes "ioError d (pathJoin [GetPath d (ri_UUID i), ''.env'']) = None"
      and "writeError d (pathJoin [GetPath d (ri_UUID i), ''.env'']) = None"
      and "case files d (pathJoin [GetPath d (ri_UUID i), ''.env'']) of None \<Rightarrow> True
           | Some old \<Rightarrow> length old \<le> length (concat (map envLine kvs))"
      and "envSafe kvs"
  shows "fst (SaveEnv d i kvs) = None
       \<and> LoadEnv (fst (snd (SaveEnv d i kvs))) (snd (snd (SaveEnv d i kvs)))
           = (None, i\<lparr>ri_Entries := map_of kvs\<rparr>)"
proof -
  let ?p = "pathJoin [GetPath d (ri_UUID i), ''.env'']"
  let ?w = "concat (map envLine kvs)"
  let ?old = "case files d ?p of None \<Rightarrow> '''' | Some data \<Rightarrow> data"
  have ow: "overwrite ?old ?w = ?w"
    using assms(3) by (simp add: overwrite_def split: option.splits)
  have save: "SaveEnv d i kvs
                = (None, d\<lparr>files := (files d)(?p \<mapsto> ?w)\<rparr>, i\<lparr>ri_Entries := map_of kvs\<rparr>)"
    using assms(1,2) ow by (simp add: SaveEnv_def Let_def)
  have all: "\<forall>kv \<in> set kvs. CHR ''='' \<notin> set (fst kv) \<and> newline \<notin> set (fst kv)
                  \<and> CHR ''='' \<notin> set (snd kv) \<and> newline \<notin> set (snd kv)
                  \<and> (snd kv = [] \<or> last (snd kv) \<noteq> carriageReturn)
                  \<and> length (fst kv) + length (snd kv) + 1 < MaxScanTokenSize"
    and dist: "distinct (map fst kvs)"
    using assms(4) by (simp_all add: envSafe_def list_all_iff)
  have raw: "rawLines ?w = map (\<lambda>kv. fst kv @ ''='' @ snd kv) kvs"
    using all by (intro rawLines_envLines) blast
  have tw: "takeWhile (\<lambda>l. length l < MaxScanTokenSize)
              (map (\<lambda>kv. fst kv @ ''='' @ snd kv) kvs)
            = map (\<lambda>kv. fst kv @ ''='' @ snd kv) kvs"
    using all by (intro takeWhile_eq_all_conv[THEN iffD2]) auto
  have dc: "map dropCR (map (\<lambda>kv. fst kv @ ''='' @ snd kv) kvs)
            = map (\<lambda>kv. fst kv @ ''='' @ snd kv) kvs"
    using all by (intro map_idI) (auto simp: dropCR_envLine)
  have scan: "scanLines ?w = map (\<lambda>kv. fst kv @ ''='' @ snd kv) kvs"
    unfolding scanLines_def raw tw dc by (rule refl)
  have "\<forall>kv \<in> set kvs. map_of kvs (fst kv) = Some (snd kv)"
    using dist by simp
  then have ll: "loadLines (scanLines ?w) (map_of kvs) = (None, map_of kvs)"
    unfolding scan using all by (intro loadLines_envLines) blast
  have "LoadEnv (d\<lparr>files := (files d)(?p \<mapsto> ?w)\<rparr>) (i\<lparr>ri_Entries := map_of kvs\<rparr>)
          = (None, i\<lparr>ri_Entries := map_of kvs\<rparr>)"
    using assms(1) ll by (simp add: LoadEnv_def ReadFile_def GetPath_def)
  then show ?thesis by (simp add: save)
qed

text \<open>
  C2. Saving a map and loading it again is meant to give the map back whatever the
  file held before.  On a file that holds \<open>PASSWORD=secret\<close> and \<open>PORT=6379\<close>, saving
  the single variable \<open>PORT=80\<close> succeeds and overwrites the first eight bytes only;
  loading then succeeds and gives \<open>PORT\<close> the old value \<open>6379\<close> and the empty key the
  value \<open>secret\<close>.
\<close>

theorem SaveEnv_keeps_old_tail:
  "fst (SaveEnv envDisk redisInstance [(''PORT'', ''80'')]) = None
   \<and> files (fst (snd (SaveEnv envDisk redisInstance [(''PORT'', ''80'')])))
        ''live/instances/7d444840-9dc0-11d1-b245-5ffdce74fad2/.env''
       = Some (''PORT=80'' @ [newline] @ ''=secret'' @ [newline] @ ''PORT=6379'' @ [newline])
   \<and> fst (LoadEnv (fst (snd (SaveEnv envDisk redisInstance [(''PORT'', ''80'')])))
                   (snd (snd (SaveEnv envDisk redisInstance [(''PORT'', ''80'')])))) = None
   \<and> ri_Entries (snd (LoadEnv (fst (snd (SaveEnv envDisk redisInstance [(''PORT'', ''80'')])))
                   (snd (snd (SaveEnv envDisk redisInstance [(''PORT'', ''80'')])))))
       = [''PORT'' \<mapsto> ''6379'', '''' \<mapsto> ''secret'']"
  by (simp add: SaveEnv_def LoadEnv_def envDisk_def emptyDisk_def redisInstance_def
      redisUUID_def GetPath_def ReadFile_def overwrite_def envLine_def scanLines_def
      newline_def dropCR_def carriageReturn_def MaxScanTokenSize_def fun_eq_iff)

subsection \<open>Reverse proxy redirects\<close>

lemma applyCalls_append: "applyCalls (xs @ ys) a = applyCalls ys (applyCalls xs a)"
  by (induction xs a rule: applyCalls.induct) simp_all

text \<open>
  C4 as stated: no two stored redirects share a source host.  Two redirects added
  under different identifiers with the source \<open>app.local\<close> are both stored, and which
  of the two \<open>GetRedirectByHost\<close> returns depends on the order of the map range.
\<close>

theorem AddRedirect_same_source_coexist:
  "redirects (applyCalls [Add ''id-1'' appLocal8080 None, Add ''id-2'' appLocal9090 None]
                emptyProxy) ''id-1'' = Some appLocal8080
   \<and> redirects (applyCalls [Add ''id-1'' appLocal8080 None, Add ''id-2'' appLocal9090 None]
                  emptyProxy) ''id-2'' = Some appLocal9090
   \<and> ''id-1'' \<noteq> ''id-2''
   \<and> Source appLocal8080 = Source appLocal9090
   \<and> GetRedirectByHost [''id-1'', ''id-2'']
        (applyCalls [Add ''id-1'' appLocal8080 None, Add ''id-2'' appLocal9090 None] emptyProxy)
        ''app.local'' = Some appLocal8080
   \<and> GetRedirectByHost [''id-2'', ''id-1'']
        (applyCalls [Add ''id-1'' appLocal8080 None, Add ''id-2'' appLocal9090 None] emptyProxy)
        ''app.local'' = Some appLocal9090"
  by (simp add: AddRedirect_def emptyProxy_def GetRedirectByHost_def appLocal8080_def
      appLocal9090_def)

text \<open>
  C4, amended.  After any finite sequence of \<open>AddRedirect\<close> and \<open>RemoveRedirect\<close> calls,
  whatever their writes returned, the store holds under each identifier exactly what
  the last call on that identifier left: the redirect of an \<open>AddRedirect\<close>, which
  replaces any redirect stored under the identifier before, nothing after a
  \<open>RemoveRedirect\<close>, and the initial entry when no call named the identifier.  Source
  hosts play no part.
\<close>

theorem redirects_follow_last_call_on_identifier:
  "redirects (applyCalls calls a) k
     = (case lastCallOn k calls of
          None \<Rightarrow> redirects a k
        | Some (Add _ redirect _) \<Rightarrow> Some redirect
        | Some (Remove _ _) \<Rightarrow> None)"
proof (induction calls rule: rev_induct)
  case Nil
  then show ?case by (simp add: lastCallOn_def)
next
  case (snoc c cs)
  then show ?case
    by (cases c)
       (simp_all add: applyCalls_append lastCallOn_def AddRedirect_def RemoveRedirect_def)
qed

subsection \<open>Native start\<close>

text \<open>
  C7. The status is meant to become \<open>running\<close> only once the process has been spawned.
  \<open>startManually\<close> sets the status before it calls \<open>cmd.Start\<close>: on a host where the
  executable exists but cannot be executed it returns the spawn error with the status
  \<open>running\<close>, the listener told so, and the handle assigned.  And after a successful
  start, the exit of the process sets the status to \<open>off\<close> and leaves the handle in
  place.
\<close>

theorem startManually_running_before_spawn:
  "fst (startManually noExecOS helloInstance)
     = Some (Err ''fork/exec ./hello: permission denied'')
   \<and> ni_Status (snd (startManually noExecOS helloInstance)) = ''running''
   \<and> ni_listeners (snd (startManually noExecOS helloInstance)) ''listener-1''
       = Some [Event ''status_change'' ''running'']
   \<and> fst (startManually helloOS helloInstance) = None
   \<and> ni_Status (reaper (Some (Err ''exit status 1''))
                  (snd (startManually helloOS helloInstance))) = ''off''
   \<and> ni_cmd (reaper (Some (Err ''exit status 1''))
               (snd (startManually helloOS helloInstance)))
       = Some \<lparr>cmd_Path = ''./hello'',
               cmd_Dir = ''live/instances/7d444840-9dc0-11d1-b245-5ffdce74fad2''\<rparr>"
  by (simp add: startManually_def noExecOS_def helloOS_def helloInstance_def redisUUID_def
      setStatus_def reaper_def StatusRunning_def StatusOff_def EventStatusChange_def Let_def)

end
